theory Spec2Isabelle
  imports Main "HOL-Library.Word"
begin

section \<open>The aria2 mirror plugin: data model\<close>

text \<open>
  A shallow embedding of \<^verbatim>\<open>bot/plugins/aria2.py\<close>. The plugin keeps an in-memory
  registry (\<^verbatim>\<open>downloads\<close>, \<^verbatim>\<open>uploads\<close>, \<^verbatim>\<open>cancelled\<close>, \<^verbatim>\<open>mega\<close>, \<^verbatim>\<open>context\<close>) that
  coroutines mutate inside \<^verbatim>\<open>async with self.lock\<close> blocks. Every such block is one
  function on the state below; what a block sends to the chat, to the engine, to the
  upload backend or to asyncio is appended to the field \<open>out\<close>. What a collaborator
  answers to an \<^verbatim>\<open>await\<close> (the engine, the file system, the chat, the upload backend) is
  a parameter of the function that awaits. Exceptions are values of the type \<open>error\<close>;
  a function that can raise returns the error or its value, together with the state
  reached. Between two locked blocks of a coroutine another coroutine may run: a handler
  is given as the sequence of its blocks, and also from the points where it can be
  suspended.
\<close>

type_synonym byte = "8 word"

datatype error =
    Aria2rpcException string
  | HttpError
  | KeyError
  | AttributeError
  | TypeError
  | ValueError
  | ZeroDivisionError
  | UnicodeDecodeError
  | RuntimeError

text \<open>
  \<^verbatim>\<open>util.aria2.Download\<close>: the fields of the engine's status document that the plugin
  reads.
\<close>

record download =
  gid :: string
  name :: string
  status :: string
  metadata :: bool
  bittorrent :: bool
  error_message :: string
  error_code :: string

text \<open>
  What \<^verbatim>\<open>await file.is_file()\<close> and \<^verbatim>\<open>await file.is_dir()\<close> answer for a record's
  path: a path is a regular file, a directory, or neither. The file system is a
  parameter of every function that asks.
\<close>

datatype path_kind = IsFile | IsDir | Inaccessible

text \<open>\<^verbatim>\<open>MediaFileUpload\<close> as \<^verbatim>\<open>drive.uploadFile\<close> returns it, tagged with the gid and name.\<close>

record media_upload =
  upload_gid :: string
  upload_name :: string

text \<open>
  An entry of \<^verbatim>\<open>self.uploads\<close>: the resumable handle of a file, or the dictionary
  \<^verbatim>\<open>{"generator": folderTasks, "counter": n}\<close> of a folder (the generator by its number).
\<close>

datatype upload =
    FileUpload media_upload
  | FolderUpload nat nat

text \<open>\<^verbatim>\<open>command.Context\<close>: the message that asked, and the standing notification.\<close>

record command_context =
  msg :: nat
  response :: "nat option"

text \<open>
  A task of \<^verbatim>\<open>asyncio.all_tasks()\<close>: its name, and whether \<^verbatim>\<open>cancel()\<close> was called on
  it. A task is live while no cancellation was requested. The state lists the tasks
  that are not done (\<open>tasks\<close>) and the generators closed so far (\<open>closed\<close>).
\<close>

record task =
  task_id :: nat
  task_name :: string
  cancel_requested :: bool

datatype event =
    BotReply nat string
  | BotReplyToResponse nat string
  | ContextRespond string
  | ContextReply string
  | ResponseDelete nat
  | TaskCancel string
  | GeneratorClose nat
  | ForcePause string
  | ForceRemove string
  | AddUri string
  | AddTorrent string
  | UploadFile string
  | CreateFolder string
  | UploadFolder string nat
  | Decrypt string
  | SeedTask string

record state =
  downloads :: "string \<rightharpoonup> download"
  uploads :: "string \<rightharpoonup> upload"
  cancelled :: "string list"
  mega :: "string list"
  active_context :: "command_context option"
  tasks :: "task list"
  closed :: "nat list"
  out :: "event list"

definition emit :: "event list \<Rightarrow> state \<Rightarrow> state" where
  "emit es s = s\<lparr>out := out s @ es\<rparr>"

text \<open>\<^verbatim>\<open>set.add\<close> on a set kept as a duplicate-free list.\<close>

definition set_add :: "string \<Rightarrow> string list \<Rightarrow> string list" where
  "set_add g xs = (if g \<in> set xs then xs else xs @ [g])"

text \<open>\<^verbatim>\<open>count\<close>: \<^verbatim>\<open>len(self.downloads)\<close> is 0 exactly when the dictionary is empty.\<close>

definition count_is_zero :: "state \<Rightarrow> bool" where
  "count_is_zero s = (downloads s = Map.empty)"

text \<open>
  \<^verbatim>\<open>checkDelete\<close>: with an empty registry, an active context and a standing
  notification, delete the notification and clear the context; otherwise nothing.
\<close>

definition checkDelete :: "state \<Rightarrow> state" where
  "checkDelete s =
     (case active_context s of
        None \<Rightarrow> s
      | Some c \<Rightarrow>
          (case response c of
             None \<Rightarrow> s
           | Some r \<Rightarrow>
               if count_is_zero s
               then (emit [ResponseDelete r] s)\<lparr>active_context := None\<rparr>
               else s))"

section \<open>The facade: \<^verbatim>\<open>_formatSE\<close>, \<^verbatim>\<open>addDownload\<close>, \<^verbatim>\<open>cancelMirror\<close>\<close>

text \<open>\<^verbatim>\<open>str.split(sep, maxsplit)\<close> for a one-character separator.\<close>

fun split_max :: "nat \<Rightarrow> char \<Rightarrow> string \<Rightarrow> string list" where
  "split_max 0 sep s = [s]"
| "split_max (Suc n) sep s =
     (if sep \<in> set s
      then takeWhile (\<lambda>c. c \<noteq> sep) s # split_max n sep (tl (dropWhile (\<lambda>c. c \<noteq> sep) s))
      else [s])"

text \<open>\<^verbatim>\<open>str.strip()\<close>: the ASCII characters Python counts as white space.\<close>

definition is_space :: "char \<Rightarrow> bool" where
  "is_space c = (of_char c \<in> {9, 10, 11, 12, 13, 28, 29, 30, 31, 32 :: nat})"

definition strip :: "string \<Rightarrow> string" where
  "strip s = rev (dropWhile is_space (rev (dropWhile is_space s)))"

text \<open>
  \<^verbatim>\<open>_formatSE\<close>. \<open>literal_message\<close> stands for \<^verbatim>\<open>ast.literal_eval\<close> followed by
  \<^verbatim>\<open>res["error"]["message"]\<close>: it is \<open>None\<close> where either raises.
\<close>

definition formatSE :: "(string \<Rightarrow> string option) \<Rightarrow> string \<Rightarrow> error + string" where
  "formatSE literal_message err =
     (case literal_message (strip (last (split_max 2 (CHR '':'') err))) of
        None \<Rightarrow> Inl ValueError
      | Some m \<Rightarrow> Inr (''__'' @ m @ ''__''))"

text \<open>The first argument of \<^verbatim>\<open>addDownload\<close>: a \<^verbatim>\<open>str\<close>, \<^verbatim>\<open>bytes\<close>, or a value of another type.\<close>

datatype source =
    Str string
  | Bytes "byte list"
  | Other string

text \<open>
  The tail of \<^verbatim>\<open>addDownload\<close>: under the lock, delete the previous notification and
  install the new context; then return the gid if it is truthy (marking it for the
  decrypt branch when \<^verbatim>\<open>mega\<close>), else \<^verbatim>\<open>None\<close>.
\<close>

definition install_context :: "command_context \<Rightarrow> state \<Rightarrow> state" where
  "install_context ctx s =
     (case active_context s of
        None \<Rightarrow> s\<lparr>active_context := Some ctx\<rparr>
      | Some c \<Rightarrow>
          (case response c of
             None \<Rightarrow> s\<lparr>active_context := Some ctx\<rparr>
           | Some r \<Rightarrow> (emit [ResponseDelete r] s)\<lparr>active_context := Some ctx\<rparr>))"

definition finish_add :: "string option \<Rightarrow> command_context \<Rightarrow> bool \<Rightarrow> state \<Rightarrow> (error + string option) \<times> state" where
  "finish_add g ctx is_mega s =
     (let s1 = install_context ctx s in
      case g of
        None \<Rightarrow> (Inr None, s1)
      | Some x \<Rightarrow>
          if x = [] then (Inr None, s1)
          else if is_mega then (Inr (Some x), s1\<lparr>mega := set_add x (mega s1)\<rparr>)
          else (Inr (Some x), s1))"

text \<open>
  \<^verbatim>\<open>addDownload\<close>. \<open>engine\<close> is the engine's answer to the one request made
  (\<^verbatim>\<open>addUri\<close> or \<^verbatim>\<open>addTorrent\<close>): the assigned gid, or the exception it raises.
  \<open>utf8\<close> is \<^verbatim>\<open>str(types, "utf-8")\<close>, \<open>None\<close> where the bytes are not UTF-8.
\<close>

definition addDownload ::
  "(string \<Rightarrow> string option) \<Rightarrow> (byte list \<Rightarrow> string option) \<Rightarrow> (error + string) \<Rightarrow>
   source \<Rightarrow> command_context \<Rightarrow> bool \<Rightarrow> state \<Rightarrow> (error + string option) \<times> state" where
  "addDownload literal_message utf8 engine types ctx is_mega s =
     (case types of
        Str uri \<Rightarrow>
          (case engine of
             Inl (Aria2rpcException e) \<Rightarrow>
               (case formatSE literal_message e of
                  Inl x \<Rightarrow> (Inl x, emit [AddUri uri] s)
                | Inr m \<Rightarrow> (Inr (Some m), emit [AddUri uri] s))
           | Inl x \<Rightarrow> (Inl x, emit [AddUri uri] s)
           | Inr g \<Rightarrow> finish_add (Some g) ctx is_mega (emit [AddUri uri] s))
      | Bytes b \<Rightarrow>
          (case utf8 b of
             None \<Rightarrow> (Inl UnicodeDecodeError, s)
           | Some t \<Rightarrow>
               (case engine of
                  Inl x \<Rightarrow> (Inl x, emit [AddTorrent t] s)
                | Inr g \<Rightarrow> finish_add None ctx is_mega (emit [AddTorrent t] s)))
      | Other ty \<Rightarrow> (Inr (Some (''__Unknown types of '' @ ty @ ''__'')), s))"

text \<open>\<^verbatim>\<open>str.replace(old, new)\<close>; \<open>k\<close> counts the characters of a match still to skip.\<close>

fun replace_from :: "string \<Rightarrow> string \<Rightarrow> nat \<Rightarrow> string \<Rightarrow> string" where
  "replace_from old new k [] = []"
| "replace_from old new (Suc k) (c # cs) = replace_from old new k cs"
| "replace_from old new 0 (c # cs) =
     (if take (length old) (c # cs) = old
      then new @ replace_from old new (length old - 1) cs
      else c # replace_from old new 0 cs)"

definition replace :: "string \<Rightarrow> string \<Rightarrow> string \<Rightarrow> string" where
  "replace old new s =
     (if old = [] then new @ concat (map (\<lambda>c. c # new) s) else replace_from old new 0 s)"

text \<open>\<^verbatim>\<open>old in s\<close> on strings.\<close>

fun contains :: "string \<Rightarrow> string \<Rightarrow> bool" where
  "contains old [] = (old = [])"
| "contains old (c # cs) = (take (length old) (c # cs) = old \<or> contains old cs)"

text \<open>The answer of \<^verbatim>\<open>tellStatus(gid, ["status", "followedBy"])\<close>.\<close>

record status_doc =
  doc_status :: string
  followedBy :: "string list option"

definition truthy :: "string list option \<Rightarrow> bool" where
  "truthy v = (case v of None \<Rightarrow> False | Some xs \<Rightarrow> xs \<noteq> [])"

definition abort_message :: string where
  "abort_message = ''__GID belongs to finished Metadata, can't be abort.__''"

text \<open>
  \<^verbatim>\<open>cancelMirror\<close>. \<open>answer\<close>, \<open>pause\<close> and \<open>remove\<close> are the engine's answers to
  \<^verbatim>\<open>tellStatus\<close>, \<^verbatim>\<open>forcePause\<close> and \<^verbatim>\<open>forceRemove\<close>; an answer \<open>Some e\<close> of the last two is
  the exception raised.
\<close>

definition cancelMirror ::
  "(string \<Rightarrow> string option) \<Rightarrow> (error + status_doc) \<Rightarrow> error option \<Rightarrow> error option \<Rightarrow>
   string \<Rightarrow> state \<Rightarrow> (error + string option) \<times> state" where
  "cancelMirror literal_message answer pause remove g s =
     (case answer of
        Inl (Aria2rpcException e) \<Rightarrow>
          (case formatSE literal_message e of
             Inl x \<Rightarrow> (Inl x, s)
           | Inr res \<Rightarrow>
               (Inr (Some (if contains g res then replace g (CHR 0x27 # g @ [CHR 0x27]) res else res)), s))
      | Inl x \<Rightarrow> (Inl x, s)
      | Inr doc \<Rightarrow>
          if doc_status doc = ''active'' then
            (case pause of
               Some x \<Rightarrow> (Inl x, emit [ForcePause g] s)
             | None \<Rightarrow>
                 (case remove of
                    Some x \<Rightarrow> (Inl x, emit [ForcePause g, ForceRemove g] s)
                  | None \<Rightarrow>
                      (Inr None,
                       (emit [ForcePause g, ForceRemove g] s)
                         \<lparr>cancelled := set_add g (cancelled (emit [ForcePause g, ForceRemove g] s))\<rparr>)))
          else if doc_status doc = ''complete'' \<and> truthy (followedBy doc)
          then (Inr (Some abort_message), s)
          else (Inr None, s\<lparr>cancelled := set_add g (cancelled s)\<rparr>))"

section \<open>Lifecycle handlers\<close>

text \<open>\<^verbatim>\<open>del self.downloads[gid]\<close> and \<^verbatim>\<open>del self.uploads[gid]\<close>: \<^verbatim>\<open>KeyError\<close> on a missing key.\<close>

definition del_download :: "string \<Rightarrow> state \<Rightarrow> (error + unit) \<times> state" where
  "del_download g s =
     (case downloads s g of
        None \<Rightarrow> (Inl KeyError, s)
      | Some d \<Rightarrow> (Inr (), s\<lparr>downloads := (downloads s)(g := None)\<rparr>))"

definition del_upload :: "string \<Rightarrow> state \<Rightarrow> (error + unit) \<times> state" where
  "del_upload g s =
     (case uploads s g of
        None \<Rightarrow> (Inl KeyError, s)
      | Some u \<Rightarrow> (Inr (), s\<lparr>uploads := (uploads s)(g := None)\<rparr>))"

text \<open>
  What the collaborators answer during one \<^verbatim>\<open>onDownloadComplete\<close>: the file system, the
  engine's re-query (\<^verbatim>\<open>getDownload\<close>), the handle of \<^verbatim>\<open>drive.uploadFile\<close>, the record of
  \<^verbatim>\<open>file.update()\<close> after a decrypt, whether \<^verbatim>\<open>M.file\<close> has the gid, the generator of
  \<^verbatim>\<open>drive.uploadFolder\<close> with the tasks it yields, the exception a task raises when
  awaited (if any), the index link (\<open>None\<close> when \<^verbatim>\<open>self.index_link\<close> is \<^verbatim>\<open>None\<close>, else the
  function from a name to \<^verbatim>\<open>join(self.index_link, parse.quote(name))\<close>), the id of
  \<^verbatim>\<open>drive.createFolder\<close>, and the number of the seeding task.
\<close>

record collaborators =
  fs :: "download \<Rightarrow> path_kind"
  tell :: "error + download"
  upload_handle :: media_upload
  updated :: download
  mega_has :: bool
  generator :: nat
  folder_tasks :: "task list"
  raises :: "nat \<Rightarrow> error option"
  index_url :: "(string \<Rightarrow> string) option"
  folder_id :: string
  seed_id :: nat

text \<open>\<^verbatim>\<open>onDownloadStart\<close>: under the lock, store the engine's record.\<close>

definition onDownloadStart :: "(error + download) \<Rightarrow> string \<Rightarrow> state \<Rightarrow> (error + unit) \<times> state" where
  "onDownloadStart answer g s =
     (case answer of
        Inl e \<Rightarrow> (Inl e, s)
      | Inr d \<Rightarrow> (Inr (), s\<lparr>downloads := (downloads s)(g \<mapsto> d)\<rparr>))"

text \<open>
  The first locked block of \<^verbatim>\<open>onDownloadComplete\<close> (lines 155 to 161): store the
  re-queried record; a metadata-only record is deleted again and the handler returns
  (\<open>None\<close>); any other record is handed on (\<open>Some file\<close>).
\<close>

definition complete_requery ::
  "(error + download) \<Rightarrow> string \<Rightarrow> state \<Rightarrow> (error + download option) \<times> state" where
  "complete_requery answer g s =
     (case answer of
        Inl e \<Rightarrow> (Inl e, s)
      | Inr file \<Rightarrow>
          if metadata file
          then (Inr None, s\<lparr>downloads := ((downloads s)(g \<mapsto> file))(g := None)\<rparr>)
          else (Inr (Some file), s\<lparr>downloads := (downloads s)(g \<mapsto> file)\<rparr>))"

text \<open>Lines 189 and 190: \<^verbatim>\<open>self.uploads[gid] = await self.drive.uploadFile(file)\<close>.\<close>

definition register_file_upload :: "media_upload \<Rightarrow> string \<Rightarrow> state \<Rightarrow> state" where
  "register_file_upload h g s = (emit [UploadFile g] s)\<lparr>uploads := (uploads s)(g \<mapsto> FileUpload h)\<rparr>"

text \<open>
  The decrypt branch (lines 164 to 187): drop the record, run the relay (the event
  \<open>Decrypt\<close>; its bytes are the subject of the section on the relay), then under the
  lock unmark the gid, store the refreshed record and start the upload.
\<close>

definition complete_mega :: "collaborators \<Rightarrow> string \<Rightarrow> state \<Rightarrow> (error + unit) \<times> state" where
  "complete_mega env g s =
     (case del_download g s of
        (Inl e, s1) \<Rightarrow> (Inl e, s1)
      | (Inr u, s1) \<Rightarrow>
          if \<not> mega_has env then (Inl KeyError, s1)
          else if g \<notin> set (mega s1) then (Inl KeyError, emit [Decrypt g] s1)
          else
            (Inr (),
             register_file_upload (upload_handle env) g
               ((emit [Decrypt g] s1)
                  \<lparr>mega := removeAll g (mega s1),
                   downloads := (downloads s1)(g \<mapsto> updated env)\<rparr>)))"

definition complete_file :: "collaborators \<Rightarrow> string \<Rightarrow> state \<Rightarrow> (error + unit) \<times> state" where
  "complete_file env g s =
     (if g \<in> set (mega s) then complete_mega env g s
      else (Inr (), register_file_upload (upload_handle env) g s))"

text \<open>
  Lines 192 to 198: create the remote folder, obtain the generator, and under the lock
  store \<^verbatim>\<open>{"generator": folderTasks, "counter": 0}\<close>.
\<close>

definition register_folder_upload :: "collaborators \<Rightarrow> string \<Rightarrow> download \<Rightarrow> state \<Rightarrow> state" where
  "register_folder_upload env g file s =
     (emit [CreateFolder (name file), UploadFolder g (generator env)] s)
       \<lparr>uploads := (uploads s)(g \<mapsto> FolderUpload (generator env) 0)\<rparr>"

text \<open>
  \<^verbatim>\<open>await task\<close> inside the \<^verbatim>\<open>try\<close> of the folder loop: \<open>Inr True\<close> when the task was
  cancelled (\<^verbatim>\<open>CancelledError\<close> is caught and the loop breaks), \<open>Inr False\<close> when it
  completed, \<open>Inl e\<close> when it raised \<open>e\<close>. Either way the task is done afterwards.
\<close>

definition is_cancelled :: "task \<Rightarrow> state \<Rightarrow> bool" where
  "is_cancelled t s = (\<exists>u \<in> set (tasks s). task_id u = task_id t \<and> cancel_requested u)"

definition task_done :: "task \<Rightarrow> state \<Rightarrow> state" where
  "task_done t s = s\<lparr>tasks := filter (\<lambda>u. task_id u \<noteq> task_id t) (tasks s)\<rparr>"

definition await_task :: "(nat \<Rightarrow> error option) \<Rightarrow> task \<Rightarrow> state \<Rightarrow> (error + bool) \<times> state" where
  "await_task rs t s =
     (if is_cancelled t s then (Inr True, task_done t s)
      else case rs (task_id t) of
             Some e \<Rightarrow> (Inl e, task_done t s)
           | None \<Rightarrow> (Inr False, task_done t s))"

text \<open>
  Lines 208 and 209: \<^verbatim>\<open>self.uploads[gid]["counter"] += 1\<close> under the lock. A missing key
  is a \<^verbatim>\<open>KeyError\<close>; a file handle cannot be subscripted.
\<close>

definition count_up :: "string \<Rightarrow> state \<Rightarrow> (error + unit) \<times> state" where
  "count_up g s =
     (case uploads s g of
        None \<Rightarrow> (Inl KeyError, s)
      | Some (FileUpload h) \<Rightarrow> (Inl TypeError, s)
      | Some (FolderUpload gen c) \<Rightarrow>
          (Inr (), s\<lparr>uploads := (uploads s)(g \<mapsto> FolderUpload gen (c + 1))\<rparr>))"

text \<open>
  The loop \<^verbatim>\<open>async for task in folderTasks\<close> (lines 200 to 209) over the tasks the
  generator still has to yield. A closed generator yields nothing more. The result is
  the flag \<^verbatim>\<open>cancelled\<close>.
\<close>

fun drive_folder ::
  "(nat \<Rightarrow> error option) \<Rightarrow> string \<Rightarrow> nat \<Rightarrow> task list \<Rightarrow> state \<Rightarrow> (error + bool) \<times> state" where
  "drive_folder rs g gen [] s = (Inr False, s)"
| "drive_folder rs g gen (t # ts) s =
     (if gen \<in> set (closed s) then (Inr False, s)
      else
        (case await_task rs t (s\<lparr>tasks := tasks s @ [t]\<rparr>) of
           (Inl e, s1) \<Rightarrow> (Inl e, s1)
         | (Inr True, s1) \<Rightarrow> (Inr True, s1)
         | (Inr False, s1) \<Rightarrow>
             (case count_up g s1 of
                (Inl e, s2) \<Rightarrow> (Inl e, s2)
              | (Inr u, s2) \<Rightarrow> drive_folder rs g gen ts s2)))"

text \<open>The text of the folder notification (lines 216 to 221).\<close>

definition folderLink :: "collaborators \<Rightarrow> download \<Rightarrow> string" where
  "folderLink env file =
     ''**GoogleDrive folderLink**: ['' @ name file @ ''](https://drive.google.com/drive/folders/''
       @ folder_id env @ '')''
     @ (case index_url env of
          None \<Rightarrow> []
        | Some url \<Rightarrow> [CHR 0x0A, CHR 0x0A] @ ''__IndexLink__: [Here]('' @ url (name file @ ''/'') @ '').'')"

text \<open>
  Lines 211 to 233, after the loop: unless cancelled, delete both entries under the
  lock, then under the lock send the folder notification: with an empty registry as a
  reply to the standing notification, which is deleted and the context cleared;
  otherwise as a reply through the context.
\<close>

definition notify_folder :: "collaborators \<Rightarrow> download \<Rightarrow> state \<Rightarrow> (error + unit) \<times> state" where
  "notify_folder env file s =
     (case active_context s of
        None \<Rightarrow> (Inl AttributeError, s)
      | Some c \<Rightarrow>
          if count_is_zero s then
            (case response c of
               None \<Rightarrow> (Inl AttributeError, s)
             | Some r \<Rightarrow>
                 (Inr (),
                  (emit [BotReplyToResponse r (folderLink env file), ResponseDelete r] s)
                    \<lparr>active_context := None\<rparr>))
          else (Inr (), emit [ContextReply (folderLink env file)] s))"

definition finish_folder ::
  "collaborators \<Rightarrow> string \<Rightarrow> download \<Rightarrow> bool \<Rightarrow> state \<Rightarrow> (error + unit) \<times> state" where
  "finish_folder env g file was_cancelled s =
     (if was_cancelled then (Inr (), s)
      else
        (case del_upload g s of
           (Inl e, s1) \<Rightarrow> (Inl e, s1)
         | (Inr u, s1) \<Rightarrow>
             (case del_download g s1 of
                (Inl e, s2) \<Rightarrow> (Inl e, s2)
              | (Inr u, s2) \<Rightarrow> notify_folder env file s2)))"

text \<open>
  Lines 242 to 244: a torrent download gets a detached seeding task named
  \<^verbatim>\<open>Seed-<gid>\<close>.
\<close>

definition seed :: "collaborators \<Rightarrow> download \<Rightarrow> state \<Rightarrow> state" where
  "seed env file s =
     (if bittorrent file
      then (emit [SeedTask (''Seed-'' @ gid file)] s)
             \<lparr>tasks := tasks s @
                [\<lparr>task_id = seed_id env, task_name = ''Seed-'' @ gid file, cancel_requested = False\<rparr>]\<rparr>
      else s)"

text \<open>
  The handler of a folder from a point where it is suspended, to its end:
  \<open>resume_next\<close> from the head of the loop, \<open>resume_await\<close> from \<^verbatim>\<open>await task\<close> on a task
  \<open>t\<close> already created, \<open>resume_count\<close> from the lock of the counter.
\<close>

definition after_loop ::
  "collaborators \<Rightarrow> string \<Rightarrow> download \<Rightarrow> (error + bool) \<times> state \<Rightarrow> (error + unit) \<times> state" where
  "after_loop env g file r =
     (case r of
        (Inl e, s1) \<Rightarrow> (Inl e, s1)
      | (Inr c, s1) \<Rightarrow>
          (case finish_folder env g file c s1 of
             (Inl e, s2) \<Rightarrow> (Inl e, s2)
           | (Inr u, s2) \<Rightarrow> (Inr (), seed env file s2)))"

definition resume_next :: "collaborators \<Rightarrow> string \<Rightarrow> download \<Rightarrow> task list \<Rightarrow> state \<Rightarrow> (error + unit) \<times> state" where
  "resume_next env g file ts s = after_loop env g file (drive_folder (raises env) g (generator env) ts s)"



definition complete_dir :: "collaborators \<Rightarrow> string \<Rightarrow> download \<Rightarrow> state \<Rightarrow> (error + unit) \<times> state" where
  "complete_dir env g file s =
     (case drive_folder (raises env) g (generator env) (folder_tasks env)
             (register_folder_upload env g file s) of
        (Inl e, s1) \<Rightarrow> (Inl e, s1)
      | (Inr c, s1) \<Rightarrow> finish_folder env g file c s1)"

text \<open>
  \<^verbatim>\<open>onDownloadComplete\<close>, run without another coroutine in between: the re-query, the
  branch on the path (file, directory, neither), then the seeding task.
\<close>

definition onDownloadComplete :: "collaborators \<Rightarrow> string \<Rightarrow> state \<Rightarrow> (error + unit) \<times> state" where
  "onDownloadComplete env g s =
     (case complete_requery (tell env) g s of
        (Inl e, s1) \<Rightarrow> (Inl e, s1)
      | (Inr None, s1) \<Rightarrow> (Inr (), s1)
      | (Inr (Some file), s1) \<Rightarrow>
          (case (case fs env file of
                   IsFile \<Rightarrow> complete_file env g s1
                 | IsDir \<Rightarrow> complete_dir env g file s1
                 | Inaccessible \<Rightarrow> del_download g s1) of
             (Inl e, s2) \<Rightarrow> (Inl e, s2)
           | (Inr u, s2) \<Rightarrow> (Inr (), seed env file s2)))"

text \<open>\<^verbatim>\<open>str.capitalize()\<close> on ASCII letters.\<close>

definition upper :: "char \<Rightarrow> char" where
  "upper c = (if 97 \<le> (of_char c :: nat) \<and> (of_char c :: nat) \<le> 122 then char_of (of_char c - 32 :: nat) else c)"

definition lower :: "char \<Rightarrow> char" where
  "lower c = (if 65 \<le> (of_char c :: nat) \<and> (of_char c :: nat) \<le> 90 then char_of (of_char c + 32 :: nat) else c)"

definition capitalize :: "string \<Rightarrow> string" where
  "capitalize s = (case s of [] \<Rightarrow> [] | c # cs \<Rightarrow> upper c # map lower cs)"

definition error_text :: "download \<Rightarrow> string" where
  "error_text file =
     [CHR 0x60] @ name file @ [CHR 0x60, CHR 0x0A] @ ''Status: **'' @ capitalize (status file) @ ''**''
     @ [CHR 0x0A] @ ''Error: __'' @ error_message file @ ''__'' @ [CHR 0x0A]
     @ ''Code: **'' @ error_code file @ ''**''"

text \<open>
  \<^verbatim>\<open>onDownloadError\<close>: re-query, reply with the error, then under the lock delete the
  record and call \<^verbatim>\<open>checkDelete\<close>.
\<close>

definition onDownloadError :: "(error + download) \<Rightarrow> string \<Rightarrow> state \<Rightarrow> (error + unit) \<times> state" where
  "onDownloadError answer g s =
     (case answer of
        Inl e \<Rightarrow> (Inl e, s)
      | Inr file \<Rightarrow>
          (case active_context s of
             None \<Rightarrow> (Inl AttributeError, s)
           | Some c \<Rightarrow>
               (case del_download (gid file) (emit [BotReply (msg c) (error_text file)] s) of
                  (Inl e, s1) \<Rightarrow> (Inl e, s1)
                | (Inr u, s1) \<Rightarrow> (Inr (), checkDelete s1))))"

section \<open>The progress loop: \<^verbatim>\<open>updateProgress\<close> and \<^verbatim>\<open>uploadProgress\<close>\<close>

text \<open>
  Lines 347 to 349: \<^verbatim>\<open>task.cancel()\<close> on every task of \<^verbatim>\<open>asyncio.all_tasks()\<close> whose name is
  the gid.
\<close>

definition cancel_tasks :: "string \<Rightarrow> state \<Rightarrow> state" where
  "cancel_tasks g s =
     (emit (map (\<lambda>t. TaskCancel (task_name t)) (filter (\<lambda>t. task_name t = g) (tasks s))) s)
       \<lparr>tasks := map (\<lambda>t. if task_name t = g then t\<lparr>cancel_requested := True\<rparr> else t) (tasks s)\<rparr>"

text \<open>Lines 353 and 354: \<^verbatim>\<open>self.cancelled.remove(gid)\<close>, then \<^verbatim>\<open>checkDelete\<close>.\<close>

definition retire :: "string \<Rightarrow> state \<Rightarrow> (error + unit) \<times> state" where
  "retire g s =
     (if g \<in> set (cancelled s)
      then (Inr (), checkDelete (s\<lparr>cancelled := removeAll g (cancelled s)\<rparr>))
      else (Inl KeyError, s))"

text \<open>
  The body of the loop over \<^verbatim>\<open>self.cancelled.copy()\<close> (lines 335 to 354), for one gid,
  all under the lock: drop the record if there is one; if there was one, its path is a
  file and the gid has an upload, drop the upload; if its path is a directory and the
  gid has an upload, cancel the tasks named after the gid, close the generator and drop
  the upload; then unmark the gid and call \<^verbatim>\<open>checkDelete\<close>. \<open>aclose\<close> is what
  \<^verbatim>\<open>generator.aclose()\<close> raises, if anything (asyncio refuses to close a generator that
  is running).
\<close>

definition cancel_unwind ::
  "(download \<Rightarrow> path_kind) \<Rightarrow> (nat \<Rightarrow> error option) \<Rightarrow> string \<Rightarrow> state \<Rightarrow> (error + unit) \<times> state" where
  "cancel_unwind kind aclose g s =
     (case downloads s g of
        None \<Rightarrow> retire g s
      | Some file \<Rightarrow>
          (let s1 = s\<lparr>downloads := (downloads s)(g := None)\<rparr> in
           case uploads s1 g of
             None \<Rightarrow> retire g s1
           | Some u \<Rightarrow>
               (case kind file of
                  IsFile \<Rightarrow> retire g (s1\<lparr>uploads := (uploads s1)(g := None)\<rparr>)
                | IsDir \<Rightarrow>
                    (case u of
                       FileUpload h \<Rightarrow> (Inl TypeError, cancel_tasks g s1)
                     | FolderUpload gen c \<Rightarrow>
                         (case aclose gen of
                            Some e \<Rightarrow> (Inl e, cancel_tasks g s1)
                          | None \<Rightarrow>
                              retire g
                                ((emit [GeneratorClose gen] (cancel_tasks g s1))
                                   \<lparr>closed := gen # closed s1, uploads := (uploads s1)(g := None)\<rparr>)))
                | Inaccessible \<Rightarrow> retire g s1)))"

text \<open>The loop itself, over the copy \<open>gs\<close> of the pending set; an exception ends it.\<close>

fun unwind_all ::
  "(download \<Rightarrow> path_kind) \<Rightarrow> (nat \<Rightarrow> error option) \<Rightarrow> string list \<Rightarrow> state \<Rightarrow> (error + unit) \<times> state" where
  "unwind_all kind aclose [] s = (Inr (), s)"
| "unwind_all kind aclose (g # gs) s =
     (case cancel_unwind kind aclose g s of
        (Inl e, s1) \<Rightarrow> (Inl e, s1)
      | (Inr u, s1) \<Rightarrow> unwind_all kind aclose gs s1)"

text \<open>
  What the chat answers to \<^verbatim>\<open>context.respond(progress)\<close>: the notification now standing,
  \<^verbatim>\<open>MessageNotModified\<close>, \<^verbatim>\<open>FloodWait\<close> with its seconds, or another exception.
\<close>

datatype respond_outcome = Sent nat | NotModified | FloodWait nat | RespondError error

text \<open>
  The condition of line 363, as Python parses it: \<^verbatim>\<open>a or b and c\<close> is \<^verbatim>\<open>a or (b and c)\<close>.
  Times are in microseconds, the resolution of \<^verbatim>\<open>datetime\<close>: five seconds are 5000000.
\<close>

definition rate_passes :: "int option \<Rightarrow> int \<Rightarrow> string \<Rightarrow> bool" where
  "rate_passes stamp now progress =
     (case stamp of None \<Rightarrow> True | Some t \<Rightarrow> 5000000 \<le> now - t \<and> progress \<noteq> [])"

text \<open>
  How lines 363 to 375 of a pass end: the condition of line 363 fails (\<open>NotDue\<close>); it
  holds and \<^verbatim>\<open>self.context\<close> is \<^verbatim>\<open>None\<close> at the test of line 367 (\<open>NoContext\<close>); the test
  passes and the context is \<^verbatim>\<open>None\<close> once the lock is acquired, so that
  \<^verbatim>\<open>self.context.respond\<close> raises \<^verbatim>\<open>AttributeError\<close> (\<open>ContextLost\<close>); or
  \<^verbatim>\<open>context.respond(progress)\<close> is called and the chat gives its answer (\<open>Called\<close>).
\<close>

datatype pass = NotDue | NoContext | ContextLost | Called respond_outcome

text \<open>
  The exception with which a pass leaves the loop (only \<^verbatim>\<open>MessageNotModified\<close> and
  \<^verbatim>\<open>FloodWait\<close> are caught), and the seconds of \<^verbatim>\<open>asyncio.sleep(flood.x)\<close>.
\<close>

definition pass_error :: "pass \<Rightarrow> error option" where
  "pass_error p =
     (case p of
        ContextLost \<Rightarrow> Some AttributeError
      | Called (RespondError e) \<Rightarrow> Some e
      | _ \<Rightarrow> None)"

definition backoff :: "pass \<Rightarrow> nat" where
  "backoff p = (case p of Called (FloodWait x) \<Rightarrow> x | _ \<Rightarrow> 0)"

text \<open>
  Lines 363 to 375 on \<^verbatim>\<open>last_update_time\<close> and the state. The test of line 367 is made
  without the lock, on the state \<open>s\<close>; the call of line 369 is made once the lock is
  acquired, on the state \<open>between s\<close>: \<open>between\<close> is what the coroutines holding the lock
  do meanwhile (nothing, when the lock is free). The call is the event
  \<open>ContextRespond\<close>. \<^verbatim>\<open>finally\<close> sets \<^verbatim>\<open>last_update_time\<close> whenever the condition of line
  363 held.
\<close>

definition emission ::
  "(state \<Rightarrow> state) \<Rightarrow> respond_outcome \<Rightarrow> int \<Rightarrow> string \<Rightarrow> int option \<times> state \<Rightarrow>
   pass \<times> (int option \<times> state)" where
  "emission between outcome now progress ls =
     (case ls of (stamp, s) \<Rightarrow>
        if rate_passes stamp now progress then
          (case active_context s of
             None \<Rightarrow> (NoContext, (Some now, s))
           | Some c0 \<Rightarrow>
               (case active_context (between s) of
                  None \<Rightarrow> (ContextLost, (Some now, between s))
                | Some c \<Rightarrow>
                    (Called outcome,
                     (Some now,
                      (case outcome of
                         Sent r \<Rightarrow>
                           (emit [ContextRespond progress] (between s))
                             \<lparr>active_context := Some (c\<lparr>response := Some r\<rparr>)\<rparr>
                       | _ \<Rightarrow> emit [ContextRespond progress] (between s))))))
        else (NotDue, (stamp, s)))"

text \<open>
  Lines 322 to 327: the block that \<^verbatim>\<open>checkProgress\<close> adds for a record that is neither
  failed, paused, removed nor complete. It starts with the name, the gid and the
  capitalized status; \<open>figures\<close> is the rest of it (the bar, the percentage, the sizes, the
  speed and the eta).
\<close>

definition download_block :: "download \<Rightarrow> string \<Rightarrow> string" where
  "download_block file figures =
     [CHR 0x60] @ name file @ [CHR 0x60, CHR 0x0A] @ ''GID: '' @ [CHR 0x60] @ gid file
     @ [CHR 0x60, CHR 0x0A] @ ''Status: **'' @ capitalize (status file) @ ''**'' @ [CHR 0x0A]
     @ figures"

text \<open>
  \<^verbatim>\<open>checkProgress\<close> (lines 266 to 329): the string starts empty and gets a block for each
  record of \<^verbatim>\<open>list(self.downloads.values())\<close>, so with an empty registry it is the empty
  string and nothing is touched. What the loop body makes of a registry that is not
  empty (the re-queries of the engine, the steps of the uploads, the formatting, the
  exception left after the retries) is the parameter \<open>blocks\<close>.
\<close>

definition checkProgress ::
  "(state \<Rightarrow> (error + string) \<times> state) \<Rightarrow> state \<Rightarrow> (error + string) \<times> state" where
  "checkProgress blocks s = (if downloads s = Map.empty then (Inr [], s) else blocks s)"

text \<open>
  What \<^verbatim>\<open>updateProgress\<close> carries from one pass of its \<^verbatim>\<open>while\<close> loop to the next: the
  time at which the next pass starts at the earliest, \<^verbatim>\<open>last_update_time\<close>, and the
  state of the plugin.
\<close>

record loop =
  clock :: int
  last_update_time :: "int option"
  registry :: state

text \<open>
  One pass of the \<^verbatim>\<open>while\<close> loop of \<^verbatim>\<open>updateProgress\<close>: the unwind of the pending
  cancellations, \<^verbatim>\<open>checkProgress\<close>, \<^verbatim>\<open>now = datetime.now()\<close> (\<open>spent\<close> microseconds after
  the pass started), the emission, and the sleeps: the seconds of a \<^verbatim>\<open>FloodWait\<close> and
  the tenth of a second of line 377, after which the next pass can start. An
  \<^verbatim>\<open>HttpError\<close> of \<^verbatim>\<open>checkProgress\<close> is logged and the pass ends at once (\<^verbatim>\<open>continue\<close>, the
  result \<open>None\<close>); any other exception ends the loop.
\<close>

definition tick ::
  "(download \<Rightarrow> path_kind) \<Rightarrow> (nat \<Rightarrow> error option) \<Rightarrow> (state \<Rightarrow> (error + string) \<times> state) \<Rightarrow>
   (state \<Rightarrow> state) \<Rightarrow> respond_outcome \<Rightarrow> nat \<Rightarrow> loop \<Rightarrow> (error + pass option) \<times> loop" where
  "tick kind aclose blocks between outcome spent l =
     (case unwind_all kind aclose (cancelled (registry l)) (registry l) of
        (Inl e, s1) \<Rightarrow> (Inl e, l\<lparr>registry := s1\<rparr>)
      | (Inr u, s1) \<Rightarrow>
          (case checkProgress blocks s1 of
             (Inl HttpError, s2) \<Rightarrow> (Inr None, l\<lparr>clock := clock l + int spent, registry := s2\<rparr>)
           | (Inl e, s2) \<Rightarrow> (Inl e, l\<lparr>registry := s2\<rparr>)
           | (Inr progress, s2) \<Rightarrow>
               (case emission between outcome (clock l + int spent) progress (last_update_time l, s2) of
                  (p, (stamp, s3)) \<Rightarrow>
                    (case pass_error p of
                       Some e \<Rightarrow> (Inl e, l\<lparr>last_update_time := stamp, registry := s3\<rparr>)
                     | None \<Rightarrow>
                         (Inr (Some p),
                          \<lparr>clock = clock l + int spent + 1000000 * int (backoff p) + 100000,
                           last_update_time = stamp, registry = s3\<rparr>)))))"

text \<open>
  \<^verbatim>\<open>MediaUploadProgress\<close> and the final response of \<^verbatim>\<open>next_chunk\<close>. \<open>resp_size\<close> is
  \<^verbatim>\<open>int(response.get("size"))\<close>, \<open>None\<close> where the key is missing (\<^verbatim>\<open>int(None)\<close> raises).
\<close>

record upload_status =
  total_size :: int
  resumable_progress :: int

record drive_response =
  resp_size :: "int option"
  webContentLink :: "string option"

text \<open>
  What one call of \<^verbatim>\<open>uploadProgress\<close> gets from outside: the answer of \<^verbatim>\<open>next_chunk\<close>
  (a pair of status and response, or an exception), the seconds since the upload
  started (\<^verbatim>\<open>end\<close>), Python's \<^verbatim>\<open>round(uploaded / end, 2)\<close> in hundredths, the formatting
  of the progress block, \<^verbatim>\<open>human_readable_bytes\<close>, and the index link.
\<close>

record stepper =
  chunk :: "error + (upload_status option \<times> drive_response option)"
  elapsed :: int
  round2 :: "int \<Rightarrow> int \<Rightarrow> int"
  render :: "media_upload \<Rightarrow> upload_status \<Rightarrow> int \<Rightarrow> string"
  human :: "int \<Rightarrow> string"
  index_link :: "(string \<Rightarrow> string) option"

text \<open>
  Lines 387 to 403: the progress block of a partial status. The three divisions raise
  \<^verbatim>\<open>ZeroDivisionError\<close> on a zero size, a zero elapsed time and a zero speed.
\<close>

definition progress_block :: "stepper \<Rightarrow> media_upload \<Rightarrow> upload_status \<Rightarrow> error + string" where
  "progress_block st f u =
     (if total_size u = 0 then Inl ZeroDivisionError
      else if elapsed st = 0 then Inl ZeroDivisionError
      else if round2 st (resumable_progress u) (elapsed st) = 0 then Inl ZeroDivisionError
      else Inr (render st f u (round2 st (resumable_progress u) (elapsed st))))"

text \<open>Lines 408 to 414: the text of the result notification.\<close>

definition fileLink :: "stepper \<Rightarrow> media_upload \<Rightarrow> drive_response \<Rightarrow> int \<Rightarrow> string" where
  "fileLink st f r n =
     ''**GoogleDrive Link**: ['' @ upload_name f @ '']('' @
       (case webContentLink r of None \<Rightarrow> ''None'' | Some l \<Rightarrow> l) @ '') (__'' @ human st n @ ''__)''
     @ (case index_link st of
          None \<Rightarrow> []
        | Some url \<Rightarrow> [CHR 0x0A, CHR 0x0A] @ ''__IndexLink__: [Here]('' @ url (upload_name f) @ '').'')"

text \<open>
  Lines 416 to 420, under the lock: reply with the result, delete the upload and the
  download of the handle's gid, call \<^verbatim>\<open>checkDelete\<close>.
\<close>

definition finish_upload :: "string \<Rightarrow> media_upload \<Rightarrow> state \<Rightarrow> (error + unit) \<times> state" where
  "finish_upload link f s =
     (case active_context s of
        None \<Rightarrow> (Inl AttributeError, s)
      | Some c \<Rightarrow>
          (case del_upload (upload_gid f) (emit [BotReply (msg c) link] s) of
             (Inl e, s1) \<Rightarrow> (Inl e, s1)
           | (Inr u, s1) \<Rightarrow>
               (case del_download (upload_gid f) s1 of
                  (Inl e, s2) \<Rightarrow> (Inl e, s2)
                | (Inr u, s2) \<Rightarrow> (Inr (), checkDelete s2))))"

text \<open>
  \<^verbatim>\<open>uploadProgress\<close>: the pair \<^verbatim>\<open>(progress, done)\<close>, or the exception raised.
\<close>

definition uploadProgress ::
  "stepper \<Rightarrow> media_upload \<Rightarrow> state \<Rightarrow> (error + string option \<times> bool) \<times> state" where
  "uploadProgress st f s =
     (case chunk st of
        Inl e \<Rightarrow> (Inl e, s)
      | Inr (status_part, response_part) \<Rightarrow>
          (case (case status_part of
                   None \<Rightarrow> Inr None
                 | Some u \<Rightarrow> map_sum id Some (progress_block st f u)) of
             Inl e \<Rightarrow> (Inl e, s)
           | Inr progress \<Rightarrow>
               if response_part = None \<and> progress \<noteq> None then (Inr (progress, False), s)
               else
                 (case response_part of
                    None \<Rightarrow> (Inl AttributeError, s)
                  | Some r \<Rightarrow>
                      (case resp_size r of
                         None \<Rightarrow> (Inl TypeError, s)
                       | Some n \<Rightarrow>
                           (case finish_upload (fileLink st f r n) f s of
                              (Inl e, s1) \<Rightarrow> (Inl e, s1)
                            | (Inr u, s1) \<Rightarrow> (Inr (None, True), s1))))))"

section \<open>The decrypt relay\<close>

text \<open>
  Lines 171 to 181 on bytes. \<^verbatim>\<open>Reader(temp, chunk_size=CHUNK_SIZE)\<close> yields the file in
  pieces of \<^verbatim>\<open>CHUNK_SIZE\<close> bytes, the last one shorter, and nothing for an empty file.
\<close>

definition CHUNK_SIZE :: nat where
  "CHUNK_SIZE = 50 * 1024 * 1024"

function read_chunks :: "nat \<Rightarrow> byte list \<Rightarrow> byte list list" where
  "read_chunks n bs = (if n = 0 \<or> bs = [] then [] else take n bs # read_chunks n (drop n bs))"
  by pat_completeness auto
termination
  by (relation "measure (\<lambda>(n, bs). length bs)") auto

declare read_chunks.simps [simp del]

text \<open>
  The loop body: \<^verbatim>\<open>chunk = aes.decrypt(chunk)\<close>, \<^verbatim>\<open>writer(chunk)\<close>, \<^verbatim>\<open>fsync\<close>. The cipher
  object keeps a state \<open>k\<close> between calls; the writer appends, so the file written is
  the concatenation of the outputs.
\<close>

fun decrypt_chunks :: "('k \<Rightarrow> byte list \<Rightarrow> byte list \<times> 'k) \<Rightarrow> 'k \<Rightarrow> byte list list \<Rightarrow> byte list" where
  "decrypt_chunks dec k [] = []"
| "decrypt_chunks dec k (c # cs) = (case dec k c of (p, k1) \<Rightarrow> p @ decrypt_chunks dec k1 cs)"

definition decrypt_file :: "('k \<Rightarrow> byte list \<Rightarrow> byte list \<times> 'k) \<Rightarrow> 'k \<Rightarrow> byte list \<Rightarrow> byte list" where
  "decrypt_file dec k ciphertext = decrypt_chunks dec k (read_chunks CHUNK_SIZE ciphertext)"

text \<open>
  Modelled from the spec: the decryption backend, \<^verbatim>\<open>M.file[gid]["aes"]\<close> of the Mega
  plugin, is not among the sources. The spec gives it as "a streaming
  \<^verbatim>\<open>decrypt(chunk) -> chunk\<close> transform": decrypting a text in two pieces, one after the
  other, gives the pieces of decrypting it in one, and nothing comes of nothing.
\<close>

definition streaming :: "('k \<Rightarrow> byte list \<Rightarrow> byte list \<times> 'k) \<Rightarrow> bool" where
  "streaming dec =
     ((\<forall>k. dec k [] = ([], k)) \<and>
      (\<forall>k a b. dec k (a @ b) =
         (case dec k a of (x, k1) \<Rightarrow> (case dec k1 b of (y, k2) \<Rightarrow> (x @ y, k2)))))"

text \<open>A streaming cipher to try the relay on: each byte is combined with its position.\<close>

primrec counter_cipher :: "nat \<Rightarrow> byte list \<Rightarrow> byte list \<times> nat" where
  "counter_cipher k [] = ([], k)"
| "counter_cipher k (b # bs) =
     (case counter_cipher (Suc k) bs of (p, k1) \<Rightarrow> (xor b (of_nat k) # p, k1))"

section \<open>Predicates of the properties\<close>

text \<open>A pass of the emission calls \<^verbatim>\<open>context.respond(progress)\<close>.\<close>

definition emits ::
  "(state \<Rightarrow> state) \<Rightarrow> respond_outcome \<Rightarrow> int \<Rightarrow> string \<Rightarrow> int option \<times> state \<Rightarrow> bool" where
  "emits between outcome now progress ls =
     (fst (emission between outcome now progress ls) = Called outcome)"




text \<open>The inclusion of the keys of \<^verbatim>\<open>uploads\<close> in the keys of \<^verbatim>\<open>downloads\<close>.\<close>

definition upload_keys_tracked :: "state \<Rightarrow> bool" where
  "upload_keys_tracked s = (dom (uploads s) \<subseteq> dom (downloads s))"

section \<open>Example values\<close>

definition state0 :: state where
  "state0 = \<lparr>downloads = Map.empty, uploads = Map.empty, cancelled = [], mega = [],
     active_context = None, tasks = [], closed = [], out = []\<rparr>"

definition context0 :: command_context where
  "context0 = \<lparr>msg = 1, response = Some 2\<rparr>"

definition download0 :: download where
  "download0 = \<lparr>gid = ''a1'', name = ''album'', status = ''complete'', metadata = False,
     bittorrent = False, error_message = [], error_code = ''0''\<rparr>"

definition handle0 :: media_upload where
  "handle0 = \<lparr>upload_gid = ''a1'', upload_name = ''album''\<rparr>"

definition task0 :: task where
  "task0 = \<lparr>task_id = 5, task_name = ''a1'', cancel_requested = False\<rparr>"

definition env0 :: collaborators where
  "env0 = \<lparr>fs = (\<lambda>d. IsDir), tell = Inr download0, upload_handle = handle0,
     updated = download0, mega_has = False, generator = 3, folder_tasks = [task0],
     raises = (\<lambda>i. None), index_url = None, folder_id = ''f9'', seed_id = 8\<rparr>"

definition stepper0 :: stepper where
  "stepper0 = \<lparr>chunk = Inr (None, Some \<lparr>resp_size = Some 10, webContentLink = Some ''l''\<rparr>),
     elapsed = 1, round2 = (\<lambda>a b. 100), render = (\<lambda>f u v. ''p''), human = (\<lambda>n. ''10 B''),
     index_link = None\<rparr>"




text \<open>
  A cancellation that arrives while \<^verbatim>\<open>onDownloadComplete\<close> awaits \<^verbatim>\<open>drive.createFolder\<close>:
  the state when the engine reports the completion, after the handler's first locked
  block, after \<^verbatim>\<open>cancelMirror\<close>, after the unwind loop of the next pass, and after the
  handler has stored the folder's upload entry. And a pending file upload whose path
  is no longer there.
\<close>

definition race_start :: state where
  "race_start = state0\<lparr>downloads := [''a1'' \<mapsto> download0], active_context := Some context0\<rparr>"

definition race_requeried :: state where
  "race_requeried = snd (complete_requery (Inr download0) ''a1'' race_start)"

definition race_marked :: state where
  "race_marked =
     snd (cancelMirror (\<lambda>e. None) (Inr \<lparr>doc_status = ''complete'', followedBy = None\<rparr>) None None
            ''a1'' race_requeried)"

definition race_unwound :: state where
  "race_unwound = snd (unwind_all (\<lambda>d. IsDir) (\<lambda>n. None) (cancelled race_marked) race_marked)"

definition race_registered :: state where
  "race_registered = register_folder_upload env0 ''a1'' download0 race_unwound"

definition vanished :: state where
  "vanished = state0\<lparr>downloads := [''a1'' \<mapsto> download0], uploads := [''a1'' \<mapsto> FileUpload handle0],
     cancelled := [''a1'']\<rparr>"




text \<open>
  A run of the progress loop. It starts with the plugin, on an empty registry and with
  \<^verbatim>\<open>last_update_time\<close> unset (\<open>loop0\<close>). A pass \<open>pass1\<close> finds the lock free, spends no time
  before line 361 and, for the registry of the one download \<open>download1\<close>, gets the block
  of that download from \<^verbatim>\<open>checkProgress\<close>. \<open>started\<close> is the loop after its first pass.
  Then the engine starts \<open>download1\<close>: with no context installed (\<open>foreign\<close>: the engine
  notifies the start of every download, whoever requested it), or requested through
  \<^verbatim>\<open>addDownload\<close> (\<open>added\<close>). \<open>quiet n\<close> is \<open>n\<close> passes in a row; \<open>flooded\<close> is the loop
  after the chat has answered the pass at 5 seconds with \<^verbatim>\<open>FloodWait\<close> of 3 seconds.
\<close>

definition download1 :: download where
  "download1 = download0\<lparr>status := ''active''\<rparr>"

definition blocks1 :: "state \<Rightarrow> (error + string) \<times> state" where
  "blocks1 s = (Inr (download_block download1 ''Progress: 0%''), s)"

definition loop0 :: loop where
  "loop0 = \<lparr>clock = 0, last_update_time = None, registry = state0\<rparr>"

definition pass1 :: "respond_outcome \<Rightarrow> loop \<Rightarrow> (error + pass option) \<times> loop" where
  "pass1 outcome l = tick (\<lambda>d. IsFile) (\<lambda>n. None) blocks1 id outcome 0 l"

definition started :: loop where
  "started = snd (pass1 NotModified loop0)"

definition foreign :: loop where
  "foreign = started\<lparr>registry := snd (onDownloadStart (Inr download1) ''a1'' (registry started))\<rparr>"

definition added :: loop where
  "added = started\<lparr>registry :=
     snd (onDownloadStart (Inr download1) ''a1''
       (snd (addDownload (\<lambda>e. None) (\<lambda>b. None) (Inr ''a1'') (Str ''http://h/f'')
               \<lparr>msg = 1, response = None\<rparr> False (registry started))))\<rparr>"

definition quiet :: "nat \<Rightarrow> loop \<Rightarrow> loop" where
  "quiet n = (\<lambda>l. snd (pass1 NotModified l)) ^^ n"

definition flooded :: loop where
  "flooded = snd (pass1 (FloodWait 3) (quiet 49 added))"

section \<open>Properties\<close>

subsection \<open>Auxiliary facts\<close>

lemma set_set_add: "set (set_add g xs) = insert g (set xs)"
  by (auto simp: set_add_def)

lemma checkDelete_fields:
  "downloads (checkDelete s) = downloads s" "uploads (checkDelete s) = uploads s"
  "cancelled (checkDelete s) = cancelled s" "mega (checkDelete s) = mega s"
  "tasks (checkDelete s) = tasks s" "closed (checkDelete s) = closed s"
  by (simp_all add: checkDelete_def emit_def split: option.splits)

lemma checkDelete_cases:
  "checkDelete s =
     (case active_context s of
        Some c \<Rightarrow> (case response c of
                     Some r \<Rightarrow> if downloads s = Map.empty
                               then s\<lparr>out := out s @ [ResponseDelete r], active_context := None\<rparr>
                               else s
                   | None \<Rightarrow> s)
      | None \<Rightarrow> s)"
  by (simp add: checkDelete_def emit_def count_is_zero_def split: option.splits)

subsection \<open>The facade\<close>

lemma addDownload_uri_accepted:
  "fst (addDownload lm utf8 (Inr g) (Str u) ctx m s) = Inr (if g = [] then None else Some g)"
  by (simp add: addDownload_def finish_add_def Let_def)

lemma addDownload_uri_rejected:
  "fst (addDownload lm utf8 (Inl (Aria2rpcException e)) (Str u) ctx m s) =
     map_sum id Some (formatSE lm e)"
  by (simp add: addDownload_def split: sum.splits)

text \<open>
  C4. For a URI the two lemmas above hold: a rejection is returned as the formatted
  message and an acceptance returns the gid. For torrent bytes neither does:
  \<^verbatim>\<open>addTorrent\<close> is awaited outside any \<^verbatim>\<open>try\<close> and its result is dropped, so an accepted
  torrent returns \<^verbatim>\<open>None\<close> and a rejected one raises the engine's exception.
\<close>

theorem addDownload_torrent_loses_gid_and_raises:
  "fst (addDownload lm (\<lambda>b. Some t) (Inr ''2089b05ecca3d829'') (Bytes b) ctx m s) = Inr None
   \<and> fst (addDownload lm (\<lambda>b. Some t) (Inl (Aria2rpcException e)) (Bytes b) ctx m s)
       = Inl (Aria2rpcException e)"
  by (simp add: addDownload_def finish_add_def Let_def)

text \<open>
  C5, as the code has it. For a status the engine reports, \<^verbatim>\<open>cancelMirror\<close> returns the
  "can't be abort" message and leaves the pending set as it was exactly when the status
  is \<^verbatim>\<open>complete\<close> with a non-empty \<^verbatim>\<open>followedBy\<close>. For every other status that is not
  \<^verbatim>\<open>active\<close> it issues nothing, returns \<^verbatim>\<open>None\<close> and the gid is pending afterwards. For
  \<^verbatim>\<open>active\<close> it issues \<^verbatim>\<open>forcePause\<close> then \<^verbatim>\<open>forceRemove\<close>, and the same holds when the engine
  carries out both (\<open>p\<close> and \<open>r\<close>, its answers, are \<open>None\<close>); when the engine refuses
  \<^verbatim>\<open>forcePause\<close>, or \<^verbatim>\<open>forceRemove\<close> after it, the exception leaves \<^verbatim>\<open>cancelMirror\<close> and the
  pending set is as it was.
\<close>

theorem cancelMirror_refuses_or_marks:
  assumes "answer = Inr doc"
  shows "(fst (cancelMirror lm answer p r g s) = Inr (Some abort_message)
            \<and> cancelled (snd (cancelMirror lm answer p r g s)) = cancelled s)
         = (doc_status doc = ''complete'' \<and> truthy (followedBy doc))
       \<and> (\<not> (doc_status doc = ''complete'' \<and> truthy (followedBy doc))
            \<and> (doc_status doc = ''active'' \<longrightarrow> p = None \<and> r = None)
          \<longrightarrow> fst (cancelMirror lm answer p r g s) = Inr None
            \<and> set (cancelled (snd (cancelMirror lm answer p r g s))) = insert g (set (cancelled s))
            \<and> out (snd (cancelMirror lm answer p r g s))
                = out s @ (if doc_status doc = ''active'' then [ForcePause g, ForceRemove g] else []))
       \<and> (doc_status doc = ''active'' \<and> p = Some e
          \<longrightarrow> cancelMirror lm answer p r g s = (Inl e, s\<lparr>out := out s @ [ForcePause g]\<rparr>))
       \<and> (doc_status doc = ''active'' \<and> p = None \<and> r = Some e
          \<longrightarrow> cancelMirror lm answer p r g s
                = (Inl e, s\<lparr>out := out s @ [ForcePause g, ForceRemove g]\<rparr>))"
  using assms
  by (auto simp: cancelMirror_def set_set_add emit_def split: option.splits)

theorem cancelMirror_refuses_or_marks_witness:
  "fst (cancelMirror (\<lambda>x. None) (Inr \<lparr>doc_status = ''active'', followedBy = None\<rparr>) None None ''a1'' state0)
     = Inr None
   \<and> set (cancelled (snd (cancelMirror (\<lambda>x. None)
         (Inr \<lparr>doc_status = ''active'', followedBy = None\<rparr>) None None ''a1'' state0))) = {''a1''}
   \<and> out (snd (cancelMirror (\<lambda>x. None)
         (Inr \<lparr>doc_status = ''active'', followedBy = None\<rparr>) None None ''a1'' state0))
       = [ForcePause ''a1'', ForceRemove ''a1'']
   \<and> fst (cancelMirror (\<lambda>x. None)
         (Inr \<lparr>doc_status = ''complete'', followedBy = Some [''b2'']\<rparr>) None None ''a1'' state0)
       = Inr (Some abort_message)
   \<and> cancelMirror (\<lambda>x. None) (Inr \<lparr>doc_status = ''active'', followedBy = None\<rparr>)
         None (Some (Aria2rpcException ''r'')) ''a1'' state0
       = (Inl (Aria2rpcException ''r''), state0\<lparr>out := [ForcePause ''a1'', ForceRemove ''a1'']\<rparr>)"
  using cancelMirror_refuses_or_marks
          [of "Inr \<lparr>doc_status = ''active'', followedBy = None\<rparr>"
              "\<lparr>doc_status = ''active'', followedBy = None\<rparr>" "\<lambda>x. None" None None "''a1''" state0]
        cancelMirror_refuses_or_marks
          [of "Inr \<lparr>doc_status = ''complete'', followedBy = Some [''b2'']\<rparr>"
              "\<lparr>doc_status = ''complete'', followedBy = Some [''b2'']\<rparr>" "\<lambda>x. None" None None "''a1''"
              state0]
        cancelMirror_refuses_or_marks
          [of "Inr \<lparr>doc_status = ''active'', followedBy = None\<rparr>"
              "\<lparr>doc_status = ''active'', followedBy = None\<rparr>" "\<lambda>x. None" None
              "Some (Aria2rpcException ''r'')" "''a1''" state0 "Aria2rpcException ''r''"]
  by (simp add: state0_def truthy_def)

text \<open>
  C5 as stated fails for the status \<^verbatim>\<open>active\<close> when the engine refuses \<^verbatim>\<open>forcePause\<close> (the
  download has ended between the two requests, say): \<^verbatim>\<open>cancelMirror\<close> neither returns
  \<^verbatim>\<open>None\<close> nor marks the gid; it raises the engine's exception, and \<^verbatim>\<open>forceRemove\<close> is not
  issued.
\<close>

theorem cancelMirror_pause_refused_counterexample:
  "cancelMirror (\<lambda>x. None) (Inr \<lparr>doc_status = ''active'', followedBy = None\<rparr>)
       (Some (Aria2rpcException ''GID a1 cannot be paused now'')) None ''a1'' state0
     = (Inl (Aria2rpcException ''GID a1 cannot be paused now''), state0\<lparr>out := [ForcePause ''a1'']\<rparr>)
   \<and> ''a1'' \<notin> set (cancelled (snd (cancelMirror (\<lambda>x. None)
         (Inr \<lparr>doc_status = ''active'', followedBy = None\<rparr>)
         (Some (Aria2rpcException ''GID a1 cannot be paused now'')) None ''a1'' state0)))
   \<and> fst (cancelMirror (\<lambda>x. None) (Inr \<lparr>doc_status = ''active'', followedBy = None\<rparr>)
         (Some (Aria2rpcException ''GID a1 cannot be paused now'')) None ''a1'' state0) \<noteq> Inr None"
  by (simp add: cancelMirror_def emit_def state0_def)

subsection \<open>Completion handlers\<close>

text \<open>
  C8. When the re-queried record is metadata-only, \<^verbatim>\<open>onDownloadComplete\<close> returns with the
  state it found but for the record of that gid, which is gone: nothing is sent to the
  upload backend, the relay or the chat (\<open>out\<close> is unchanged), no upload entry and no
  task is made, and no other gid is stored. A later \<^verbatim>\<open>onDownloadStart\<close> under another gid
  stores the real download under that gid, and the first gid stays absent.
\<close>

theorem metadata_completion_drops_record_only:
  assumes "tell env = Inr file" and "metadata file"
  shows "onDownloadComplete env g s = (Inr (), s\<lparr>downloads := (downloads s)(g := None)\<rparr>)
     \<and> (\<forall>h d. h \<noteq> g \<longrightarrow>
           downloads (snd (onDownloadStart (Inr d) h (snd (onDownloadComplete env g s)))) h = Some d
         \<and> downloads (snd (onDownloadStart (Inr d) h (snd (onDownloadComplete env g s)))) g = None)"
  using assms
  by (simp add: onDownloadComplete_def complete_requery_def onDownloadStart_def)

theorem metadata_completion_drops_record_only_witness:
  "tell (env0\<lparr>tell := Inr (download0\<lparr>metadata := True\<rparr>)\<rparr>) = Inr (download0\<lparr>metadata := True\<rparr>)
   \<and> metadata (download0\<lparr>metadata := True\<rparr>)
   \<and> onDownloadComplete (env0\<lparr>tell := Inr (download0\<lparr>metadata := True\<rparr>)\<rparr>) ''a1''
         (state0\<lparr>downloads := [''a1'' \<mapsto> download0]\<rparr>)
       = (Inr (), state0)"
  using metadata_completion_drops_record_only
          [of "env0\<lparr>tell := Inr (download0\<lparr>metadata := True\<rparr>)\<rparr>" "download0\<lparr>metadata := True\<rparr>"
              "''a1''" "state0\<lparr>downloads := [''a1'' \<mapsto> download0]\<rparr>"]
  by (simp add: state0_def)

subsection \<open>The upload stepper\<close>

text \<open>
  C10. \<^verbatim>\<open>uploadProgress\<close> returns a pair only if \<^verbatim>\<open>next_chunk\<close> gave a status or a response
  that is not \<^verbatim>\<open>None\<close>; when both are \<^verbatim>\<open>None\<close> it raises \<^verbatim>\<open>AttributeError\<close> at
  \<^verbatim>\<open>response.get\<close> and changes nothing.
\<close>

theorem uploadProgress_needs_status_or_response:
  "(uploadProgress st f s = (Inr r, s') \<longrightarrow>
      (\<exists>u resp. chunk st = Inr (u, resp) \<and> (u \<noteq> None \<or> resp \<noteq> None)))
   \<and> (chunk st = Inr (None, None) \<longrightarrow> uploadProgress st f s = (Inl AttributeError, s))"
  by (auto simp: uploadProgress_def split: sum.splits option.splits prod.splits if_splits)

theorem uploadProgress_needs_status_or_response_witness:
  "uploadProgress (stepper0\<lparr>chunk := Inr (None, None)\<rparr>) handle0 state0 = (Inl AttributeError, state0)
   \<and> uploadProgress
         (stepper0\<lparr>chunk := Inr (Some \<lparr>total_size = 10, resumable_progress = 5\<rparr>, None)\<rparr>)
         handle0 state0 = (Inr (Some ''p'', False), state0)"
  using uploadProgress_needs_status_or_response
          [of "stepper0\<lparr>chunk := Inr (None, None)\<rparr>" handle0 state0 "(None, False)" state0]
  by (simp add: uploadProgress_def progress_block_def stepper0_def)

text \<open>
  C6, as the code has it. When \<^verbatim>\<open>next_chunk\<close> gives the final response of a file upload
  that is registered (a context is active, the gid has an upload and a download entry,
  the response has a size), \<^verbatim>\<open>uploadProgress\<close> returns \<^verbatim>\<open>(None, True)\<close> and, in its one
  locked block, has replied with the result link, removed the entries of that gid from
  both maps and of no other gid, and left the pending set, the decrypt set and the
  tasks alone. The slot is retired only when a notification stands: if the context has
  a response and the registry is then empty, the notification is deleted and the
  context cleared; if the registry is not empty, or no notification was sent yet, the
  context stays.
\<close>

theorem uploadProgress_final_removes_exactly_that_id:
  assumes "chunk st = Inr (None, Some r)" and "resp_size r = Some n"
    and "active_context s = Some c"
    and "uploads s (upload_gid f) = Some up" and "downloads s (upload_gid f) = Some d"
  shows "\<exists>s'. uploadProgress st f s = (Inr (None, True), s')
     \<and> uploads s' = (uploads s)(upload_gid f := None)
     \<and> downloads s' = (downloads s)(upload_gid f := None)
     \<and> (\<forall>h. h \<noteq> upload_gid f \<longrightarrow> uploads s' h = uploads s h \<and> downloads s' h = downloads s h)
     \<and> cancelled s' = cancelled s \<and> mega s' = mega s \<and> tasks s' = tasks s
     \<and> (case response c of
           Some m \<Rightarrow>
             if count_is_zero s'
             then out s' = out s @ [BotReply (msg c) (fileLink st f r n), ResponseDelete m]
                  \<and> active_context s' = None
             else out s' = out s @ [BotReply (msg c) (fileLink st f r n)]
                  \<and> active_context s' = Some c
         | None \<Rightarrow> out s' = out s @ [BotReply (msg c) (fileLink st f r n)]
                  \<and> active_context s' = Some c)"
proof -
  let ?g = "upload_gid f"
  let ?s1 = "s\<lparr>out := out s @ [BotReply (msg c) (fileLink st f r n)],
                uploads := (uploads s)(?g := None), downloads := (downloads s)(?g := None)\<rparr>"
  have run: "uploadProgress st f s = (Inr (None, True), checkDelete ?s1)"
    using assms
    by (simp add: uploadProgress_def finish_upload_def del_upload_def del_download_def emit_def)
  have maps: "uploads (checkDelete ?s1) = (uploads s)(?g := None)"
    "downloads (checkDelete ?s1) = (downloads s)(?g := None)"
    "cancelled (checkDelete ?s1) = cancelled s" "mega (checkDelete ?s1) = mega s"
    "tasks (checkDelete ?s1) = tasks s"
    by (simp_all add: checkDelete_fields)
  have slot: "case response c of
           Some m \<Rightarrow>
             if count_is_zero (checkDelete ?s1)
             then out (checkDelete ?s1) = out s @ [BotReply (msg c) (fileLink st f r n), ResponseDelete m]
                  \<and> active_context (checkDelete ?s1) = None
             else out (checkDelete ?s1) = out s @ [BotReply (msg c) (fileLink st f r n)]
                  \<and> active_context (checkDelete ?s1) = Some c
         | None \<Rightarrow> out (checkDelete ?s1) = out s @ [BotReply (msg c) (fileLink st f r n)]
                  \<and> active_context (checkDelete ?s1) = Some c"
    using assms(3)
    by (simp add: checkDelete_cases count_is_zero_def split: option.splits)
  show ?thesis
    using run maps slot by (intro exI[of _ "checkDelete ?s1"]) simp
qed

theorem uploadProgress_final_removes_exactly_that_id_witness:
  "uploadProgress stepper0 handle0
     (state0\<lparr>downloads := [''a1'' \<mapsto> download0],
             uploads := [''a1'' \<mapsto> FileUpload handle0], active_context := Some context0\<rparr>)
   = (Inr (None, True),
      state0\<lparr>out := [BotReply 1 (fileLink stepper0 handle0
                       \<lparr>resp_size = Some 10, webContentLink = Some ''l''\<rparr> 10),
                     ResponseDelete 2]\<rparr>)
   \<and> uploadProgress stepper0 handle0
     (state0\<lparr>downloads := [''a1'' \<mapsto> download0, ''b2'' \<mapsto> download0],
             uploads := [''a1'' \<mapsto> FileUpload handle0], active_context := Some context0\<rparr>)
   = (Inr (None, True),
      state0\<lparr>downloads := [''b2'' \<mapsto> download0], active_context := Some context0,
             out := [BotReply 1 (fileLink stepper0 handle0
                       \<lparr>resp_size = Some 10, webContentLink = Some ''l''\<rparr> 10)]\<rparr>)"
  using uploadProgress_final_removes_exactly_that_id
          [of stepper0 "\<lparr>resp_size = Some 10, webContentLink = Some ''l''\<rparr>" 10
              "state0\<lparr>downloads := [''a1'' \<mapsto> download0],
                 uploads := [''a1'' \<mapsto> FileUpload handle0], active_context := Some context0\<rparr>"
              context0 handle0 "FileUpload handle0" download0]
        uploadProgress_final_removes_exactly_that_id
          [of stepper0 "\<lparr>resp_size = Some 10, webContentLink = Some ''l''\<rparr>" 10
              "state0\<lparr>downloads := [''a1'' \<mapsto> download0, ''b2'' \<mapsto> download0],
                 uploads := [''a1'' \<mapsto> FileUpload handle0], active_context := Some context0\<rparr>"
              context0 handle0 "FileUpload handle0" download0]
  by (auto simp: stepper0_def handle0_def state0_def context0_def count_is_zero_def fun_upd_twist
        uploadProgress_def finish_upload_def del_upload_def del_download_def emit_def
        checkDelete_def
      split: if_splits)

text \<open>
  C6 as stated fails for an upload that ends before the first notification was sent:
  the context has no response yet, the registry is empty after the two deletes, and the
  context stays installed.
\<close>

theorem upload_before_first_notification_counterexample:
  "uploadProgress stepper0 handle0
     (state0\<lparr>downloads := [''a1'' \<mapsto> download0],
             uploads := [''a1'' \<mapsto> FileUpload handle0],
             active_context := Some \<lparr>msg = 1, response = None\<rparr>\<rparr>)
   = (Inr (None, True),
      state0\<lparr>active_context := Some \<lparr>msg = 1, response = None\<rparr>,
             out := [BotReply 1 (fileLink stepper0 handle0
                       \<lparr>resp_size = Some 10, webContentLink = Some ''l''\<rparr> 10)]\<rparr>)
   \<and> count_is_zero (snd (uploadProgress stepper0 handle0
        (state0\<lparr>downloads := [''a1'' \<mapsto> download0],
                uploads := [''a1'' \<mapsto> FileUpload handle0],
                active_context := Some \<lparr>msg = 1, response = None\<rparr>\<rparr>)))
   \<and> active_context (snd (uploadProgress stepper0 handle0
        (state0\<lparr>downloads := [''a1'' \<mapsto> download0],
                uploads := [''a1'' \<mapsto> FileUpload handle0],
                active_context := Some \<lparr>msg = 1, response = None\<rparr>\<rparr>)))
       = Some \<lparr>msg = 1, response = None\<rparr>"
  by (simp add: stepper0_def handle0_def state0_def count_is_zero_def
        uploadProgress_def finish_upload_def del_upload_def del_download_def emit_def
        checkDelete_def)

subsection \<open>Retiring the notification\<close>

lemma onDownloadError_retires:
  assumes "active_context s = Some c" and "response c = Some m"
    and "onDownloadError answer g s = (Inr (), s')" and "count_is_zero s'"
  shows "active_context s' = None \<and> last (out s') = ResponseDelete m"
  using assms
  by (auto simp: onDownloadError_def del_download_def checkDelete_def emit_def count_is_zero_def
      split: sum.splits option.splits if_splits)

lemma uploadProgress_retires:
  assumes "active_context s = Some c" and "response c = Some m"
    and "uploadProgress st f s = (Inr (None, True), s')" and "count_is_zero s'"
  shows "active_context s' = None \<and> last (out s') = ResponseDelete m"
  using assms
  by (auto simp: uploadProgress_def finish_upload_def del_upload_def del_download_def
      checkDelete_def emit_def count_is_zero_def
      split: sum.splits option.splits if_splits prod.splits)

lemma cancel_unwind_retires:
  assumes "active_context s = Some c" and "response c = Some m"
    and "cancel_unwind kind aclose g s = (Inr (), s')" and "count_is_zero s'"
  shows "active_context s' = None \<and> last (out s') = ResponseDelete m"
  using assms
  by (auto simp: cancel_unwind_def retire_def cancel_tasks_def Let_def
      checkDelete_def emit_def count_is_zero_def
      split: sum.splits option.splits if_splits prod.splits path_kind.splits upload.splits)

lemma finish_folder_retires:
  assumes "active_context s = Some c" and "response c = Some m"
    and "finish_folder env g file False s = (Inr (), s')" and "count_is_zero s'"
  shows "active_context s' = None \<and> last (out s') = ResponseDelete m"
  using assms
  by (auto simp: finish_folder_def notify_folder_def del_upload_def del_download_def
      emit_def count_is_zero_def
      split: sum.splits option.splits if_splits prod.splits)

text \<open>
  C7, as the code has it. Let a notification stand (an active context with a
  response). After an error notification, a file upload's completion, the unwind of a
  cancellation and a folder's completion, whenever the registry is empty the standing
  notification has been deleted (the last thing sent) and the context cleared. A
  metadata-only completion removes its record and leaves the notification and the
  context as they are, whatever the count.
\<close>

theorem empty_registry_retires_notification:
  assumes "active_context s = Some c" and "response c = Some m" and "count_is_zero s'"
  shows "(onDownloadError answer g s = (Inr (), s') \<longrightarrow>
            active_context s' = None \<and> last (out s') = ResponseDelete m)
     \<and> (uploadProgress st f s = (Inr (None, True), s') \<longrightarrow>
            active_context s' = None \<and> last (out s') = ResponseDelete m)
     \<and> (cancel_unwind kind aclose g s = (Inr (), s') \<longrightarrow>
            active_context s' = None \<and> last (out s') = ResponseDelete m)
     \<and> (finish_folder env g file False s = (Inr (), s') \<longrightarrow>
            active_context s' = None \<and> last (out s') = ResponseDelete m)
     \<and> (tell env = Inr file \<and> metadata file \<longrightarrow>
            active_context (snd (onDownloadComplete env g s)) = Some c
          \<and> out (snd (onDownloadComplete env g s)) = out s)"
  using onDownloadError_retires[OF assms(1,2) _ assms(3)]
    uploadProgress_retires[OF assms(1,2) _ assms(3)]
    cancel_unwind_retires[OF assms(1,2) _ assms(3)]
    finish_folder_retires[OF assms(1,2) _ assms(3)]
  by (simp add: onDownloadComplete_def complete_requery_def assms(1))

theorem empty_registry_retires_notification_witness:
  "onDownloadError (Inr download0) ''a1''
     (state0\<lparr>downloads := [''a1'' \<mapsto> download0], active_context := Some context0\<rparr>)
   = (Inr (), state0\<lparr>out := [BotReply 1 (error_text download0), ResponseDelete 2]\<rparr>)
   \<and> count_is_zero (state0\<lparr>out := [BotReply 1 (error_text download0), ResponseDelete 2]\<rparr>)"
  using empty_registry_retires_notification
          [of "state0\<lparr>downloads := [''a1'' \<mapsto> download0], active_context := Some context0\<rparr>"
              context0 2 "state0\<lparr>out := [BotReply 1 (error_text download0), ResponseDelete 2]\<rparr>"
              "Inr download0" "''a1''"]
  by (simp add: onDownloadError_def del_download_def checkDelete_def emit_def count_is_zero_def
      state0_def context0_def download0_def)

text \<open>
  C7 as stated fails: a metadata-only completion empties the registry and the
  notification is neither deleted nor the context cleared.
\<close>

theorem metadata_completion_keeps_notification_counterexample:
  "count_is_zero (snd (onDownloadComplete (env0\<lparr>tell := Inr (download0\<lparr>metadata := True\<rparr>)\<rparr>) ''a1''
       (state0\<lparr>downloads := [''a1'' \<mapsto> download0], active_context := Some context0\<rparr>)))
   \<and> active_context (snd (onDownloadComplete (env0\<lparr>tell := Inr (download0\<lparr>metadata := True\<rparr>)\<rparr>) ''a1''
       (state0\<lparr>downloads := [''a1'' \<mapsto> download0], active_context := Some context0\<rparr>)))
      = Some \<lparr>msg = 1, response = Some 2\<rparr>
   \<and> out (snd (onDownloadComplete (env0\<lparr>tell := Inr (download0\<lparr>metadata := True\<rparr>)\<rparr>) ''a1''
       (state0\<lparr>downloads := [''a1'' \<mapsto> download0], active_context := Some context0\<rparr>))) = []"
  by (simp add: onDownloadComplete_def complete_requery_def count_is_zero_def state0_def context0_def)

subsection \<open>The rate limiter\<close>

lemma emits_iff:
  "emits between outcome now p (stamp, s) =
     (rate_passes stamp now p \<and> active_context s \<noteq> None \<and> active_context (between s) \<noteq> None)"
  by (auto simp: emits_def emission_def split: option.splits)

lemma emission_stamp:
  "fst (snd (emission between outcome now p (stamp, s))) =
     (if rate_passes stamp now p then Some now else stamp)"
  by (auto simp: emission_def split: option.splits)

lemma emission_out:
  "emits between outcome now p (stamp, s) \<Longrightarrow>
     out (snd (snd (emission between outcome now p (stamp, s)))) = out (between s) @ [ContextRespond p]"
  by (auto simp: emits_def emission_def emit_def split: option.splits respond_outcome.splits if_splits)

lemma emission_lost:
  "(fst (emission between outcome now p (stamp, s)) = ContextLost) =
     (rate_passes stamp now p \<and> active_context s \<noteq> None \<and> active_context (between s) = None)"
  by (auto simp: emission_def split: option.splits)

lemma emission_suppresses:
  assumes "rate_passes stamp now p" and "later - now < 5000000"
  shows "\<not> emits between2 outcome2 later p2 (snd (emission between outcome now p (stamp, s)))"
proof -
  obtain st s1 where r: "snd (emission between outcome now p (stamp, s)) = (st, s1)"
    by (cases "snd (emission between outcome now p (stamp, s))")
  have "st = Some now"
    using emission_stamp[of between outcome now p stamp s] assms(1) r by simp
  then show ?thesis
    using assms(2) by (simp add: r emits_iff rate_passes_def)
qed

lemma tick_pass:
  assumes "tick kind aclose blocks between outcome spent l = (Inr (Some q), l1)"
  shows "(\<exists>progress s2.
            emission between outcome (clock l + int spent) progress (last_update_time l, s2)
              = (q, (last_update_time l1, registry l1)))
         \<and> clock l1 = clock l + int spent + 1000000 * int (backoff q) + 100000"
  using assms
  apply (auto simp: tick_def split: prod.splits sum.splits error.splits option.splits)
  apply blast
  done

lemma tick_lost:
  assumes "unwind_all kind aclose (cancelled (registry l)) (registry l) = (Inr (), s1)"
    and "checkProgress blocks s1 = (Inr progress, s2)"
    and "rate_passes (last_update_time l) (clock l + int spent) progress"
    and "active_context s2 \<noteq> None" and "active_context (between s2) = None"
  shows "fst (tick kind aclose blocks between outcome spent l) = Inl AttributeError"
  using assms by (auto simp: tick_def emission_def pass_error_def split: option.splits)

text \<open>
  C3, as the code has it. A pass calls \<^verbatim>\<open>context.respond(progress)\<close> exactly when the
  condition of line 363 holds, a context is active at the test of line 367 and a
  context is still active once the lock is acquired. With \<^verbatim>\<open>last_update_time\<close> set, the
  condition is: the string is not empty and at least five seconds have passed since
  \<^verbatim>\<open>last_update_time\<close>; with \<^verbatim>\<open>last_update_time\<close> unset and a string that is not empty it
  holds. When the context was cleared between the test and the lock, the pass raises
  \<^verbatim>\<open>AttributeError\<close>, which ends the loop. The call is made with the string of the pass.
  \<^verbatim>\<open>last_update_time\<close> becomes the time of the pass whenever the condition held, whether
  or not the call was made and whatever the chat answered; so a pass less than five
  seconds after a pass on which the condition held calls nothing. A pass of the loop
  that ends normally is such an emission at its time \<open>clock l + spent\<close>, and the next
  pass starts no earlier than the seconds of a \<^verbatim>\<open>FloodWait\<close> and a tenth of a second
  after that.
\<close>

theorem emission_is_rate_limited:
  "(emits between outcome now p (Some t, s) =
      (active_context s \<noteq> None \<and> active_context (between s) \<noteq> None \<and> p \<noteq> [] \<and> 5000000 \<le> now - t))
   \<and> (p \<noteq> [] \<longrightarrow>
        emits between outcome now p (None, s) =
          (active_context s \<noteq> None \<and> active_context (between s) \<noteq> None))
   \<and> ((fst (emission between outcome now p (stamp, s)) = ContextLost) =
        (rate_passes stamp now p \<and> active_context s \<noteq> None \<and> active_context (between s) = None))
   \<and> (unwind_all kind aclose (cancelled (registry l)) (registry l) = (Inr (), s1)
        \<and> checkProgress blocks s1 = (Inr progress, s2)
        \<and> rate_passes (last_update_time l) (clock l + int spent) progress
        \<and> active_context s2 \<noteq> None \<and> active_context (between s2) = None \<longrightarrow>
        fst (tick kind aclose blocks between outcome spent l) = Inl AttributeError)
   \<and> (emits between outcome now p (stamp, s) \<longrightarrow>
        out (snd (snd (emission between outcome now p (stamp, s)))) = out (between s) @ [ContextRespond p])
   \<and> fst (snd (emission between outcome now p (stamp, s))) =
        (if rate_passes stamp now p then Some now else stamp)
   \<and> (rate_passes stamp now p \<and> later - now < 5000000 \<longrightarrow>
        \<not> emits between2 outcome2 later p2 (snd (emission between outcome now p (stamp, s))))
   \<and> (tick kind aclose blocks between outcome spent l = (Inr (Some q), l1) \<longrightarrow>
        (\<exists>progress s2.
           emission between outcome (clock l + int spent) progress (last_update_time l, s2)
             = (q, (last_update_time l1, registry l1)))
        \<and> clock l1 = clock l + int spent + 1000000 * int (backoff q) + 100000)"
proof -
  have a: "emits between outcome now p (Some t, s) =
      (active_context s \<noteq> None \<and> active_context (between s) \<noteq> None \<and> p \<noteq> [] \<and> 5000000 \<le> now - t)"
    by (auto simp: emits_iff rate_passes_def)
  have b: "p \<noteq> [] \<longrightarrow>
        emits between outcome now p (None, s) =
          (active_context s \<noteq> None \<and> active_context (between s) \<noteq> None)"
    by (simp add: emits_iff rate_passes_def)
  have c: "unwind_all kind aclose (cancelled (registry l)) (registry l) = (Inr (), s1)
        \<and> checkProgress blocks s1 = (Inr progress, s2)
        \<and> rate_passes (last_update_time l) (clock l + int spent) progress
        \<and> active_context s2 \<noteq> None \<and> active_context (between s2) = None \<longrightarrow>
        fst (tick kind aclose blocks between outcome spent l) = Inl AttributeError"
    using tick_lost by blast
  have d: "emits between outcome now p (stamp, s) \<longrightarrow>
        out (snd (snd (emission between outcome now p (stamp, s)))) = out (between s) @ [ContextRespond p]"
    using emission_out by blast
  have e: "rate_passes stamp now p \<and> later - now < 5000000 \<longrightarrow>
        \<not> emits between2 outcome2 later p2 (snd (emission between outcome now p (stamp, s)))"
    using emission_suppresses by blast
  have f: "tick kind aclose blocks between outcome spent l = (Inr (Some q), l1) \<longrightarrow>
        (\<exists>progress s2.
           emission between outcome (clock l + int spent) progress (last_update_time l, s2)
             = (q, (last_update_time l1, registry l1)))
        \<and> clock l1 = clock l + int spent + 1000000 * int (backoff q) + 100000"
    using tick_pass by blast
  show ?thesis
    using a b c d e f emission_lost emission_stamp by blast
qed

lemma started_eq: "started = \<lparr>clock = 100000, last_update_time = Some 0, registry = state0\<rparr>"
  by (simp add: started_def pass1_def tick_def loop0_def state0_def checkProgress_def emission_def
      rate_passes_def pass_error_def backoff_def)

lemma foreign_eq:
  "foreign = \<lparr>clock = 100000, last_update_time = Some 0,
      registry = state0\<lparr>downloads := [''a1'' \<mapsto> download1]\<rparr>\<rparr>"
  by (simp add: foreign_def started_eq onDownloadStart_def state0_def)

lemma added_eq:
  "added = \<lparr>clock = 100000, last_update_time = Some 0,
      registry = state0\<lparr>downloads := [''a1'' \<mapsto> download1],
        active_context := Some \<lparr>msg = 1, response = None\<rparr>, out := [AddUri ''http://h/f'']\<rparr>\<rparr>"
  by (simp add: added_def started_eq onDownloadStart_def addDownload_def finish_add_def
      install_context_def emit_def state0_def Let_def)

lemma quiet_pass:
  assumes "cancelled r = []" and "downloads r ''a1'' = Some d" and "c < 5000000"
  shows "pass1 oc \<lparr>clock = c, last_update_time = Some 0, registry = r\<rparr> =
           (Inr (Some NotDue), \<lparr>clock = c + 100000, last_update_time = Some 0, registry = r\<rparr>)"
proof -
  have "downloads r \<noteq> Map.empty" using assms(2) by auto
  then show ?thesis
    using assms(1,3)
    by (simp add: pass1_def tick_def checkProgress_def blocks1_def emission_def rate_passes_def
        pass_error_def backoff_def)
qed

lemma quiet_passes:
  assumes "cancelled r = []" and "downloads r ''a1'' = Some d"
  shows "c + int n * 100000 \<le> 5000000 \<Longrightarrow>
         quiet n \<lparr>clock = c, last_update_time = Some 0, registry = r\<rparr> =
           \<lparr>clock = c + int n * 100000, last_update_time = Some 0, registry = r\<rparr>"
proof (induction n)
  case 0
  then show ?case by (simp add: quiet_def)
next
  case (Suc n)
  have less: "c + int n * 100000 < 5000000" using Suc.prems by simp
  have "quiet (Suc n) \<lparr>clock = c, last_update_time = Some 0, registry = r\<rparr> =
          snd (pass1 NotModified (quiet n \<lparr>clock = c, last_update_time = Some 0, registry = r\<rparr>))"
    by (simp add: quiet_def)
  also have "\<dots> = snd (pass1 NotModified
                      \<lparr>clock = c + int n * 100000, last_update_time = Some 0, registry = r\<rparr>)"
    using Suc.IH less by simp
  also have "\<dots> = \<lparr>clock = c + int n * 100000 + 100000, last_update_time = Some 0, registry = r\<rparr>"
    using quiet_pass[OF assms less] by simp
  finally show ?case by (simp add: algebra_simps)
qed

lemma quiet_foreign:
  "quiet 49 foreign = \<lparr>clock = 5000000, last_update_time = Some 0,
      registry = state0\<lparr>downloads := [''a1'' \<mapsto> download1]\<rparr>\<rparr>"
  using quiet_passes[of "state0\<lparr>downloads := [''a1'' \<mapsto> download1]\<rparr>" download1 100000 49]
  by (simp add: foreign_eq state0_def)

lemma quiet_added:
  "quiet 49 added = \<lparr>clock = 5000000, last_update_time = Some 0,
      registry = state0\<lparr>downloads := [''a1'' \<mapsto> download1],
        active_context := Some \<lparr>msg = 1, response = None\<rparr>, out := [AddUri ''http://h/f'']\<rparr>\<rparr>"
  using quiet_passes[of "state0\<lparr>downloads := [''a1'' \<mapsto> download1],
        active_context := Some \<lparr>msg = 1, response = None\<rparr>, out := [AddUri ''http://h/f'']\<rparr>"
      download1 100000 49]
  by (simp add: added_eq state0_def)

lemma flooded_pass:
  "pass1 (FloodWait 3) (quiet 49 added) =
     (Inr (Some (Called (FloodWait 3))),
      \<lparr>clock = 8100000, last_update_time = Some 5000000,
        registry = state0\<lparr>downloads := [''a1'' \<mapsto> download1],
          active_context := Some \<lparr>msg = 1, response = None\<rparr>,
          out := [AddUri ''http://h/f'',
                  ContextRespond (download_block download1 ''Progress: 0%'')]\<rparr>\<rparr>)"
  by (simp add: quiet_added pass1_def tick_def state0_def checkProgress_def blocks1_def
      emission_def rate_passes_def pass_error_def backoff_def emit_def download_block_def)

theorem emission_is_rate_limited_witness:
  "emits id (Sent 2) 7000000 ''x'' (Some 1000000, state0\<lparr>active_context := Some context0\<rparr>)
   \<and> \<not> emits id (Sent 2) 8000000 ''x''
         (snd (emission id (Sent 2) 7000000 ''x'' (Some 1000000, state0\<lparr>active_context := Some context0\<rparr>)))
   \<and> rate_passes (Some 1000000) 7000000 ''x''
   \<and> pass1 (FloodWait 3) (quiet 49 added) = (Inr (Some (Called (FloodWait 3))), flooded)
   \<and> clock flooded = clock (quiet 49 added) + 1000000 * 3 + 100000
   \<and> last_update_time flooded = Some (clock (quiet 49 added))"
  using emission_is_rate_limited
          [where between = id and outcome = "Sent 2" and now = 7000000 and p = "''x''"
             and t = 1000000 and s = "state0\<lparr>active_context := Some context0\<rparr>"
             and stamp = "Some 1000000" and later = 8000000 and ?between2.0 = id
             and ?outcome2.0 = "Sent 2" and ?p2.0 = "''x''"]
        emission_is_rate_limited
          [where kind = "\<lambda>d. IsFile" and aclose = "\<lambda>n. None" and blocks = blocks1
             and between = id and outcome = "FloodWait 3" and spent = 0 and l = "quiet 49 added"
             and q = "Called (FloodWait 3)" and ?l1.0 = flooded]
        flooded_pass
  by (simp add: rate_passes_def flooded_def quiet_added backoff_def pass1_def)

text \<open>
  C3 as stated fails, in two ways. The loop has started and stamped
  \<^verbatim>\<open>last_update_time\<close> on its first pass, at time 0, and nothing was ever sent. First,
  the engine starts a download while no context is installed: at the pass five seconds
  after the start the string is not empty and there was no emission before, and the
  pass calls nothing. Second, the download was requested through \<^verbatim>\<open>addDownload\<close>: the
  pass at five seconds calls \<^verbatim>\<open>context.respond\<close>, the chat answers \<^verbatim>\<open>FloodWait\<close> of 3
  seconds, the loop sleeps 3.1 seconds, and the next pass, with the same string not
  empty and still no successful emission, is not due: the attempt has stamped
  \<^verbatim>\<open>last_update_time\<close>.
\<close>

theorem emission_needs_context_and_counts_attempts_counterexample:
  "clock (quiet 49 foreign) = 5000000 \<and> last_update_time (quiet 49 foreign) = Some 0
   \<and> active_context (registry (quiet 49 foreign)) = None
   \<and> out (registry (quiet 49 foreign)) = []
   \<and> fst (checkProgress blocks1 (registry (quiet 49 foreign)))
       = Inr (download_block download1 ''Progress: 0%'')
   \<and> download_block download1 ''Progress: 0%'' \<noteq> []
   \<and> fst (pass1 (Sent 2) (quiet 49 foreign)) = Inr (Some NoContext)
   \<and> out (registry (snd (pass1 (Sent 2) (quiet 49 foreign)))) = []
   \<and> clock (quiet 49 added) = 5000000 \<and> last_update_time (quiet 49 added) = Some 0
   \<and> fst (pass1 (FloodWait 3) (quiet 49 added)) = Inr (Some (Called (FloodWait 3)))
   \<and> clock flooded = 8100000 \<and> last_update_time flooded = Some 5000000
   \<and> out (registry flooded)
       = [AddUri ''http://h/f'', ContextRespond (download_block download1 ''Progress: 0%'')]
   \<and> fst (checkProgress blocks1 (registry flooded))
       = Inr (download_block download1 ''Progress: 0%'')
   \<and> fst (pass1 (Sent 2) flooded) = Inr (Some NotDue)
   \<and> out (registry (snd (pass1 (Sent 2) flooded))) = out (registry flooded)"
proof -
  have f: "flooded = \<lparr>clock = 8100000, last_update_time = Some 5000000,
        registry = state0\<lparr>downloads := [''a1'' \<mapsto> download1],
          active_context := Some \<lparr>msg = 1, response = None\<rparr>,
          out := [AddUri ''http://h/f'',
                  ContextRespond (download_block download1 ''Progress: 0%'')]\<rparr>\<rparr>"
    by (simp add: flooded_def flooded_pass)
  have a: "clock (quiet 49 foreign) = 5000000" "last_update_time (quiet 49 foreign) = Some 0"
    "active_context (registry (quiet 49 foreign)) = None"
    "out (registry (quiet 49 foreign)) = []"
    "fst (checkProgress blocks1 (registry (quiet 49 foreign)))
       = Inr (download_block download1 ''Progress: 0%'')"
    by (simp_all add: quiet_foreign state0_def checkProgress_def blocks1_def)
  have b: "download_block download1 ''Progress: 0%'' \<noteq> []"
    by (simp add: download_block_def)
  have c: "pass1 (Sent 2) (quiet 49 foreign) =
             (Inr (Some NoContext),
              \<lparr>clock = 5100000, last_update_time = Some 5000000,
               registry = state0\<lparr>downloads := [''a1'' \<mapsto> download1]\<rparr>\<rparr>)"
    by (simp add: quiet_foreign pass1_def tick_def state0_def checkProgress_def blocks1_def
        emission_def rate_passes_def pass_error_def backoff_def download_block_def)
  have d: "clock (quiet 49 added) = 5000000" "last_update_time (quiet 49 added) = Some 0"
    by (simp_all add: quiet_added)
  have e: "clock flooded = 8100000" "last_update_time flooded = Some 5000000"
    "out (registry flooded)
       = [AddUri ''http://h/f'', ContextRespond (download_block download1 ''Progress: 0%'')]"
    "fst (checkProgress blocks1 (registry flooded))
       = Inr (download_block download1 ''Progress: 0%'')"
    by (simp_all add: f state0_def checkProgress_def blocks1_def)
  have g: "pass1 (Sent 2) flooded = (Inr (Some NotDue), flooded\<lparr>clock := 8200000\<rparr>)"
    by (simp add: f pass1_def tick_def state0_def checkProgress_def blocks1_def
        emission_def rate_passes_def pass_error_def backoff_def)
  show ?thesis
    using a b d e by (simp add: c g flooded_pass state0_def)
qed

subsection \<open>The decrypt relay\<close>

lemma streaming_counter_cipher_append:
  "counter_cipher k (a @ b) =
     (case counter_cipher k a of (x, k1) \<Rightarrow> (case counter_cipher k1 b of (y, k2) \<Rightarrow> (x @ y, k2)))"
  by (induction a arbitrary: k) (auto split: prod.splits)

lemma streaming_counter_cipher: "streaming counter_cipher"
  unfolding streaming_def using streaming_counter_cipher_append by simp

lemma decrypt_chunks_concat:
  "streaming dec \<Longrightarrow> decrypt_chunks dec k cs = fst (dec k (concat cs))"
proof (induction cs arbitrary: k)
  case Nil
  then show ?case by (simp add: streaming_def)
next
  case (Cons c cs)
  obtain x k1 where c: "dec k c = (x, k1)" by (cases "dec k c")
  obtain y k2 where r: "dec k1 (concat cs) = (y, k2)" by (cases "dec k1 (concat cs)")
  have "dec k (c @ concat cs) = (x @ y, k2)"
    using Cons.prems c r by (simp add: streaming_def)
  moreover have "decrypt_chunks dec k1 cs = y"
    using Cons.IH[OF Cons.prems, of k1] r by simp
  ultimately show ?case using c by simp
qed

lemma concat_read_chunks: "0 < n \<Longrightarrow> concat (read_chunks n bs) = bs"
proof (induction n bs rule: read_chunks.induct)
  case (1 n bs)
  show ?case
  proof (cases "bs = []")
    case True
    then show ?thesis by (subst read_chunks.simps) simp
  next
    case False
    with 1 have "concat (read_chunks n (drop n bs)) = drop n bs" by simp
    with False 1(2) show ?thesis by (subst read_chunks.simps) simp
  qed
qed

lemma read_chunks_nonempty: "[] \<notin> set (read_chunks n bs)"
proof (induction n bs rule: read_chunks.induct)
  case (1 n bs)
  show ?case
  proof (cases "n = 0 \<or> bs = []")
    case True
    then show ?thesis by (subst read_chunks.simps) simp
  next
    case False
    with 1 have "[] \<notin> set (read_chunks n (drop n bs))" by simp
    with False show ?thesis by (subst read_chunks.simps) auto
  qed
qed

text \<open>
  C9. For a streaming decrypt transform, every ciphertext \<open>c\<close> and every split of \<open>c\<close>
  into chunks that are not empty, taken in order, the relay's output (each chunk
  decrypted, the outputs appended in order) is the plaintext: what decrypting \<open>c\<close> in
  one piece gives. The reader's pieces of 50 MiB are such a split, so the file the relay
  writes is the plaintext.
\<close>

theorem chunked_decrypt_reproduces_plaintext:
  assumes "streaming dec"
  shows "(\<forall>cs. concat cs = c \<and> [] \<notin> set cs \<longrightarrow> decrypt_chunks dec k cs = fst (dec k c))
     \<and> concat (read_chunks CHUNK_SIZE c) = c \<and> [] \<notin> set (read_chunks CHUNK_SIZE c)
     \<and> decrypt_file dec k c = fst (dec k c)"
  using assms decrypt_chunks_concat[OF assms]
  by (simp add: decrypt_file_def concat_read_chunks read_chunks_nonempty CHUNK_SIZE_def)

theorem chunked_decrypt_reproduces_plaintext_witness:
  "streaming counter_cipher
   \<and> decrypt_chunks counter_cipher 0 [[1], [2, 3]] = fst (counter_cipher 0 [1, 2, 3])
   \<and> decrypt_file counter_cipher 0 [1, 2, 3] = [1, 3, 1]"
  using chunked_decrypt_reproduces_plaintext[OF streaming_counter_cipher, of "[1, 2, 3]" 0]
    streaming_counter_cipher
  by simp

subsection \<open>The unwind of a cancelled folder upload\<close>

lemma checkDelete_out: "\<exists>es. out (checkDelete s) = out s @ es"
  by (simp add: checkDelete_def emit_def split: option.splits)

lemma retire_Inr:
  "retire g s = (Inr (), s') \<Longrightarrow>
     downloads s' = downloads s \<and> uploads s' = uploads s \<and> tasks s' = tasks s
     \<and> closed s' = closed s \<and> cancelled s' = removeAll g (cancelled s)
     \<and> (\<exists>es. out s' = out s @ es)"
  using checkDelete_out[of "s\<lparr>cancelled := removeAll g (cancelled s)\<rparr>"]
  by (auto simp: retire_def checkDelete_fields split: if_splits)
























subsection \<open>The keys of the two maps\<close>

text \<open>
  The steps that delete both entries keep the inclusion: the end of a file upload, the
  end of a folder upload, and the unwind of a gid whose path is a file or a directory.
\<close>

lemma finish_upload_keeps_keys_tracked:
  "upload_keys_tracked s \<Longrightarrow> finish_upload link f s = (Inr (), s') \<Longrightarrow> upload_keys_tracked s'"
  by (auto simp: finish_upload_def del_upload_def del_download_def emit_def upload_keys_tracked_def
      checkDelete_fields subset_iff dom_def split: option.splits if_splits)

lemma finish_folder_keeps_keys_tracked:
  "upload_keys_tracked s \<Longrightarrow> finish_folder env g file c s = (Inr (), s') \<Longrightarrow> upload_keys_tracked s'"
  by (auto simp: finish_folder_def notify_folder_def del_upload_def del_download_def emit_def
      upload_keys_tracked_def subset_iff dom_def split: option.splits if_splits)

lemma cancel_unwind_keeps_keys_tracked:
  assumes "upload_keys_tracked s" and "\<forall>d. kind d \<noteq> Inaccessible"
    and "cancel_unwind kind aclose g s = (Inr (), s')"
  shows "upload_keys_tracked s'"
proof -
  have "dom (uploads s') \<subseteq> dom (downloads s')"
    using assms
    by (auto simp: cancel_unwind_def Let_def upload_keys_tracked_def emit_def cancel_tasks_def
        subset_iff dom_def
        split: option.splits path_kind.splits upload.splits dest!: retire_Inr)
  then show ?thesis by (simp add: upload_keys_tracked_def)
qed

lemma race_requeried_eq: "race_requeried = race_start"
  by (simp add: race_requeried_def complete_requery_def race_start_def download0_def state0_def)

lemma race_marked_eq: "race_marked = race_start\<lparr>cancelled := [''a1'']\<rparr>"
  by (simp add: race_marked_def race_requeried_eq cancelMirror_def truthy_def set_add_def
      race_start_def state0_def)

lemma race_unwound_eq:
  "unwind_all (\<lambda>d. IsDir) (\<lambda>n. None) (cancelled race_marked) race_marked
     = (Inr (), state0\<lparr>out := [ResponseDelete 2]\<rparr>)"
  by (simp add: race_marked_eq race_start_def state0_def cancel_unwind_def retire_def
      checkDelete_def count_is_zero_def emit_def context0_def Let_def)

text \<open>
  C2. The inclusion of the upload keys in the download keys is broken outside the lock.
  First, a directory download completes; while the handler awaits
  \<^verbatim>\<open>drive.createFolder\<close> (no lock held), \<^verbatim>\<open>cancelMirror\<close> marks the gid and a pass of the
  progress loop unwinds it: the record is deleted, there is no upload entry yet; the
  handler then stores the folder's upload entry under the lock, uploads the folder and
  ends in a \<^verbatim>\<open>KeyError\<close> at \<^verbatim>\<open>del self.downloads[gid]\<close>. Second, the unwind of a gid
  whose path is neither a file nor a directory deletes the record and keeps the upload
  entry, which the two sibling branches delete.
\<close>

theorem cancel_while_creating_folder_orphans_upload:
  "upload_keys_tracked race_start \<and> upload_keys_tracked race_requeried
   \<and> upload_keys_tracked race_marked \<and> upload_keys_tracked race_unwound
   \<and> \<not> upload_keys_tracked race_registered
   \<and> uploads race_registered ''a1'' = Some (FolderUpload 3 0)
   \<and> downloads race_registered ''a1'' = None
   \<and> fst (resume_next env0 ''a1'' download0 [task0] race_registered) = Inl KeyError
   \<and> upload_keys_tracked vanished
   \<and> fst (cancel_unwind (\<lambda>d. Inaccessible) (\<lambda>n. None) ''a1'' vanished) = Inr ()
   \<and> \<not> upload_keys_tracked (snd (cancel_unwind (\<lambda>d. Inaccessible) (\<lambda>n. None) ''a1'' vanished))"
proof -
  have u: "race_unwound = state0\<lparr>out := [ResponseDelete 2]\<rparr>"
    by (simp add: race_unwound_def race_unwound_eq)
  have r: "race_registered =
      state0\<lparr>out := [ResponseDelete 2, CreateFolder ''album'', UploadFolder ''a1'' 3],
             uploads := [''a1'' \<mapsto> FolderUpload 3 0]\<rparr>"
    by (simp add: race_registered_def u register_folder_upload_def emit_def env0_def download0_def
        state0_def)
  have a: "upload_keys_tracked race_start" "upload_keys_tracked race_requeried"
    "upload_keys_tracked race_marked" "upload_keys_tracked race_unwound"
    by (simp_all add: race_requeried_eq race_marked_eq u upload_keys_tracked_def race_start_def
        state0_def)
  have b: "\<not> upload_keys_tracked race_registered"
    "uploads race_registered ''a1'' = Some (FolderUpload 3 0)"
    "downloads race_registered ''a1'' = None"
    by (simp_all add: r upload_keys_tracked_def state0_def)
  have c: "fst (resume_next env0 ''a1'' download0 [task0] race_registered) = Inl KeyError"
    by (simp add: r resume_next_def after_loop_def await_task_def is_cancelled_def task_done_def
        count_up_def finish_folder_def del_upload_def del_download_def env0_def task0_def
        state0_def)
  have d: "upload_keys_tracked vanished"
    "fst (cancel_unwind (\<lambda>d. Inaccessible) (\<lambda>n. None) ''a1'' vanished) = Inr ()"
    "\<not> upload_keys_tracked (snd (cancel_unwind (\<lambda>d. Inaccessible) (\<lambda>n. None) ''a1'' vanished))"
    by (simp_all add: vanished_def upload_keys_tracked_def cancel_unwind_def retire_def
        checkDelete_def emit_def state0_def Let_def)
  show ?thesis using a b c d by simp
qed


end
